theory Spec2Isabelle
  imports Complex_Main "HOL-Library.Multiset" "HOL-Library.Product_Lexorder" "HOL-Library.AList"
begin

section \<open>XP / level formula (database.py)\<close>

text \<open>
  Python integers are unbounded, so XP and levels are \<^typ>\<open>int\<close>.
  \<^verbatim>\<open>
  def xp_threshold_for_level(level):
      if level <= 1:
          return 0
      total = 0
      for l in range(1, level):
          total += 25 * (2 ** (l - 1))
      return total
  \<close>
  The \<open>for\<close> loop over \<open>range(1, level)\<close> is a left fold over the integers
  \<open>1, ..., level - 1\<close>.
\<close>

definition xp_threshold_for_level :: "int \<Rightarrow> int" where
  "xp_threshold_for_level level =
     (if level \<le> 1 then 0
      else fold (\<lambda>l total. total + 25 * 2 ^ nat (l - 1)) [1..level - 1] 0)"

lemma threshold_fold_shift:
  "fold (\<lambda>l total. total + 25 * 2 ^ nat (l - 1)) ls a =
   a + fold (\<lambda>l total. total + 25 * 2 ^ nat (l - 1)) ls (0::int)"
proof (induction ls arbitrary: a)
  case Nil
  show ?case by simp
next
  case (Cons l ls)
  have "fold (\<lambda>l total. total + 25 * 2 ^ nat (l - 1)) (l # ls) a =
        fold (\<lambda>l total. total + 25 * 2 ^ nat (l - 1)) ls (a + 25 * 2 ^ nat (l - 1))"
    by simp
  also have "\<dots> = (a + 25 * 2 ^ nat (l - 1)) +
        fold (\<lambda>l total. total + 25 * 2 ^ nat (l - 1)) ls 0"
    by (rule Cons.IH)
  also have "\<dots> = a + fold (\<lambda>l total. total + 25 * 2 ^ nat (l - 1)) ls (0 + 25 * 2 ^ nat (l - 1))"
    using Cons.IH [of "0 + 25 * 2 ^ nat (l - 1)"] by simp
  finally show ?case by simp
qed

lemma threshold_step:
  assumes "1 \<le> level"
  shows "xp_threshold_for_level (level + 1) = xp_threshold_for_level level + 25 * 2 ^ nat (level - 1)"
proof (cases "level = 1")
  case True
  then show ?thesis by (simp add: xp_threshold_for_level_def)
next
  case False
  with assms have gt: "1 < level" by simp
  then have "[1..level] = [1..level - 1] @ [level]"
    using upto_rec2 [of 1 level] by simp
  then have "fold (\<lambda>l total. total + 25 * 2 ^ nat (l - 1)) [1..level] (0::int) =
             fold (\<lambda>l total. total + 25 * 2 ^ nat (l - 1)) [1..level - 1] 0 + 25 * 2 ^ nat (level - 1)"
    by simp
  with gt show ?thesis by (simp add: xp_threshold_for_level_def)
qed

lemma threshold_closed_form:
  "xp_threshold_for_level (1 + int n) = 25 * (2 ^ n - 1)"
proof (induction n)
  case 0
  show ?case by (simp add: xp_threshold_for_level_def)
next
  case (Suc n)
  have "xp_threshold_for_level (1 + int (Suc n)) = xp_threshold_for_level ((1 + int n) + 1)"
    by (simp add: add.commute add.left_commute)
  also have "\<dots> = xp_threshold_for_level (1 + int n) + 25 * 2 ^ nat ((1 + int n) - 1)"
    by (rule threshold_step) simp
  also have "\<dots> = 25 * (2 ^ n - 1) + 25 * 2 ^ n"
    by (simp add: Suc.IH)
  finally show ?case by (simp add: algebra_simps)
qed

lemma threshold_nonneg: "0 \<le> xp_threshold_for_level level"
proof (cases "level \<le> 1")
  case True
  then show ?thesis by (simp add: xp_threshold_for_level_def)
next
  case False
  then have "level = 1 + int (nat (level - 1))" by simp
  then obtain n where "level = 1 + int n" ..
  then show ?thesis by (simp add: threshold_closed_form)
qed

lemma threshold_strict_step:
  "1 \<le> level \<Longrightarrow> xp_threshold_for_level level < xp_threshold_for_level (level + 1)"
  by (simp add: threshold_step)

lemma threshold_low: "level \<le> 1 \<Longrightarrow> xp_threshold_for_level level = 0"
  by (simp add: xp_threshold_for_level_def)

text \<open>
  \<^verbatim>\<open>
  def calculate_level_from_xp(xp):
      level = 1
      while True:
          next_threshold = xp_threshold_for_level(level + 1)
          if xp >= next_threshold:
              level += 1
          else:
              break
      return level
  \<close>
  The \<open>while True\<close> loop is the recursive function \<open>level_loop\<close> on the loop variable;
  it terminates because the thresholds grow without bound.
\<close>

function level_loop :: "int \<Rightarrow> int \<Rightarrow> int" where
  "level_loop xp level =
     (if xp \<ge> xp_threshold_for_level (level + 1) then level_loop xp (level + 1) else level)"
  by pat_completeness auto
termination
proof (relation "measure (\<lambda>(xp, level). nat (xp + 1 - xp_threshold_for_level (level + 1)) + nat (1 - level))")
  show "wf (measure (\<lambda>(xp, level). nat (xp + 1 - xp_threshold_for_level (level + 1)) + nat (1 - level)))"
    by simp
next
  fix xp level :: int
  assume ge: "xp_threshold_for_level (level + 1) \<le> xp"
  show "((xp, level + 1), (xp, level)) \<in>
        measure (\<lambda>(xp, level). nat (xp + 1 - xp_threshold_for_level (level + 1)) + nat (1 - level))"
  proof (cases "level < 0")
    case True
    then have "xp_threshold_for_level (level + 1) = 0" "xp_threshold_for_level (level + 1 + 1) = 0"
      by (simp_all add: threshold_low)
    with True show ?thesis by simp
  next
    case False
    then have "xp_threshold_for_level (level + 1) < xp_threshold_for_level (level + 1 + 1)"
      by (intro threshold_strict_step) simp
    with ge False show ?thesis by simp
  qed
qed

declare level_loop.simps [simp del]

definition calculate_level_from_xp :: "int \<Rightarrow> int" where
  "calculate_level_from_xp xp = level_loop xp 1"

lemma level_loop_reaches:
  assumes "xp_threshold_for_level lvl \<le> xp" "xp < xp_threshold_for_level (lvl + 1)"
    and "1 \<le> level" "level \<le> lvl"
  shows "level_loop xp level = lvl"
  using assms
proof (induction "nat (lvl - level)" arbitrary: level)
  case 0
  then have "level = lvl" by simp
  with "0.prems" show ?case by (simp add: level_loop.simps)
next
  case (Suc k)
  then have lt: "level < lvl" by simp
  have mono: "xp_threshold_for_level (level + 1) \<le> xp_threshold_for_level lvl"
  proof -
    have "\<And>d. xp_threshold_for_level (level + 1) \<le> xp_threshold_for_level (level + 1 + int d)"
    proof -
      fix d
      show "xp_threshold_for_level (level + 1) \<le> xp_threshold_for_level (level + 1 + int d)"
      proof (induction d)
        case 0
        show ?case by simp
      next
        case (Suc d)
        have "xp_threshold_for_level (level + 1 + int d) < xp_threshold_for_level (level + 1 + int d + 1)"
          using \<open>1 \<le> level\<close> by (intro threshold_strict_step) simp
        with Suc show ?case by (simp add: add.assoc)
      qed
    qed
    from this [of "nat (lvl - (level + 1))"] lt show ?thesis by simp
  qed
  have "level_loop xp level = level_loop xp (level + 1)"
    using mono Suc.prems(1) by (subst level_loop.simps) simp
  also have "\<dots> = lvl"
    using Suc.hyps(2) Suc.prems lt by (intro Suc.hyps(1)) simp_all
  finally show ?case .
qed

section \<open>Threshold round trip\<close>

text \<open>
  Claim C3. For every level \<open>\<ge> 1\<close>, the level computed from the XP threshold of that level
  is the level itself; for every level \<open>> 1\<close>, one XP below the threshold gives the level
  before; and the thresholds of levels 2, 3, 4 and 5 are 25, 75, 175 and 375 XP.
\<close>

theorem threshold_round_trip:
  "(1 \<le> level \<longrightarrow> calculate_level_from_xp (xp_threshold_for_level level) = level) \<and>
   (1 < level \<longrightarrow> calculate_level_from_xp (xp_threshold_for_level level - 1) = level - 1) \<and>
   xp_threshold_for_level 2 = 25 \<and> xp_threshold_for_level 3 = 75 \<and>
   xp_threshold_for_level 4 = 175 \<and> xp_threshold_for_level 5 = 375"
proof (intro conjI impI)
  assume "1 \<le> level"
  then show "calculate_level_from_xp (xp_threshold_for_level level) = level"
    unfolding calculate_level_from_xp_def
    by (intro level_loop_reaches threshold_strict_step) simp_all
next
  assume gt: "1 < level"
  then have "xp_threshold_for_level (level - 1) < xp_threshold_for_level (level - 1 + 1)"
    by (intro threshold_strict_step) simp
  with gt show "calculate_level_from_xp (xp_threshold_for_level level - 1) = level - 1"
    unfolding calculate_level_from_xp_def
    by (intro level_loop_reaches) simp_all
next
  show "xp_threshold_for_level 2 = 25"
    using threshold_closed_form [of 1] by simp
  show "xp_threshold_for_level 3 = 75"
    using threshold_closed_form [of 2] by simp
  show "xp_threshold_for_level 4 = 175"
    using threshold_closed_form [of 3] by simp
  show "xp_threshold_for_level 5 = 375"
    using threshold_closed_form [of 4] by simp
qed

theorem threshold_round_trip_witness:
  "calculate_level_from_xp (xp_threshold_for_level 4) = 4 \<and>
   calculate_level_from_xp (xp_threshold_for_level 4 - 1) = 3 \<and>
   xp_threshold_for_level 4 = 175"
proof -
  have h: "(1::int) \<le> 4" "(1::int) < 4" by simp_all
  from h threshold_round_trip [of 4]
  have a: "calculate_level_from_xp (xp_threshold_for_level 4) = 4" by blast
  from h threshold_round_trip [of 4]
  have "calculate_level_from_xp (xp_threshold_for_level 4 - 1) = 4 - 1" by blast
  then have b: "calculate_level_from_xp (xp_threshold_for_level 4 - 1) = 3" by simp
  from threshold_round_trip [of 4] have c: "xp_threshold_for_level 4 = 175" by blast
  from a b c show ?thesis by blast
qed


section \<open>The document store (database.py)\<close>

text \<open>
  The persistence store holds one document per user. A document is modelled as a record
  with the fields the operations below read or write; a field that a document may lack is
  an \<open>option\<close>, read with the default the source passes to \<open>.get\<close>. Where the source
  checks the shape of a value (\<open>isinstance(achievements, dict)\<close>,
  \<open>isinstance(earned, list)\<close>, \<open>isinstance(current, (int, float))\<close>,
  \<open>isinstance(weekly_xp_map, dict)\<close>) the field is a datatype with a constructor for the
  value of the wrong shape. Numbers are Python integers (floating-point values are outside
  the model).
\<close>

datatype jval = JInt int | JOther

text \<open>
  \<open>badges_earned\<close>: absent, a list of badge ids, or a value that is neither a list nor
  sized (null or a number; \<open>len\<close> of it raises).
\<close>

datatype badges_field = BAbsent | BList "string list" | BOther

text \<open>
  The \<open>achievements\<close> mapping: the earned badges, and every other key (the activity
  counters, the streaks, \<open>last_login\<close>) as an association list.
\<close>

record achievements_doc =
  badges_earned :: badges_field
  stats :: "(string \<times> jval) list"

datatype achievements_field = AchAbsent | AchDict achievements_doc | AchOther

record challenge =
  c_type :: string
  c_target :: int
  c_current :: int
  c_completed :: bool
  c_xp :: int

text \<open>
  The \<open>daily_challenges\<close> mapping. \<open>create_user\<close> stores the empty mapping \<open>{}\<close>, which is
  the record with every field \<open>None\<close>.
\<close>

record challenges =
  week :: "string option"
  challenge1 :: "challenge option"
  challenge2 :: "challenge option"
  challenge3 :: "challenge option"
  completed_today :: "int option"
  streak :: "int option"

datatype weekly_field = WAbsent | WDict "(string \<times> int) list" | WOther

record user =
  uid :: string
  username :: "string option"
  name :: "string option"
  user_class :: "string option"
  division :: "string option"
  user_type :: "string option"
  total_xp :: "int option"
  level :: "int option"
  achievements :: achievements_field
  weekly_xp :: weekly_field
  daily_challenges :: challenges
  security_question :: "string option"
  security_answer :: "string option"
  last_active :: "string option"

text \<open>
  A conversation document: the nested mapping from mode name to transcript, and the time
  of the last write.
\<close>

record conv_doc =
  conversations :: "string \<rightharpoonup> string"
  updated_at :: string

text \<open>
  The module-level handles. \<open>users_collection\<close> and \<open>conversations_collection\<close> are
  \<open>None\<close> when the connection failed at start-up; the users are kept in the order the
  store returns them. \<open>conversation_contexts\<close> is the in-memory mapping of app.py.
\<close>

record state =
  users_collection :: "user list option"
  conversations_collection :: "(string \<rightharpoonup> conv_doc) option"
  conversation_contexts :: "string \<rightharpoonup> (string \<rightharpoonup> string)"

definition find_one :: "string \<Rightarrow> user list \<Rightarrow> user option" where
  "find_one i docs = find (\<lambda>u. uid u = i) docs"

text \<open>\<open>update_one({'_id': i}, {'$set': ...})\<close> on top-level fields: the first match is changed.\<close>

fun update_one :: "string \<Rightarrow> (user \<Rightarrow> user) \<Rightarrow> user list \<Rightarrow> user list" where
  "update_one i f [] = []"
| "update_one i f (u # us) = (if uid u = i then f u # us else u # update_one i f us)"

text \<open>
  \<open>update_one\<close> with a dotted path (\<open>achievements.badges_earned\<close>): the store refuses to
  create a field inside a value that is not a mapping, and the driver raises; \<open>None\<close> is
  that exception.
\<close>

fun update_one_path :: "string \<Rightarrow> (user \<Rightarrow> user option) \<Rightarrow> user list \<Rightarrow> user list option" where
  "update_one_path i f [] = Some []"
| "update_one_path i f (u # us) =
     (if uid u = i then map_option (\<lambda>u'. u' # us) (f u)
      else map_option ((#) u) (update_one_path i f us))"

definition set_badges_earned :: "string list \<Rightarrow> user \<Rightarrow> user option" where
  "set_badges_earned l u =
     (case achievements u of
        AchAbsent \<Rightarrow> Some (u\<lparr>achievements := AchDict \<lparr>badges_earned = BList l, stats = []\<rparr>\<rparr>)
      | AchDict d \<Rightarrow> Some (u\<lparr>achievements := AchDict (d\<lparr>badges_earned := BList l\<rparr>)\<rparr>)
      | AchOther \<Rightarrow> None)"

definition set_stat :: "string \<Rightarrow> jval \<Rightarrow> user \<Rightarrow> user option" where
  "set_stat k v u =
     (case achievements u of
        AchAbsent \<Rightarrow> Some (u\<lparr>achievements := AchDict \<lparr>badges_earned = BAbsent, stats = [(k, v)]\<rparr>\<rparr>)
      | AchDict d \<Rightarrow> Some (u\<lparr>achievements := AchDict (d\<lparr>stats := AList.update k v (stats d)\<rparr>)\<rparr>)
      | AchOther \<Rightarrow> None)"

lemma find_one_update_one:
  assumes "\<And>u. uid (f u) = uid u"
  shows "find_one j (update_one i f docs) =
         (if j = i then map_option f (find_one i docs) else find_one j docs)"
  using assms by (induction docs) (auto simp: find_one_def)

lemma update_one_path_absent:
  "find_one i docs = None \<Longrightarrow> update_one_path i f docs = Some docs"
  by (induction docs) (auto simp: find_one_def split: if_splits)

lemma update_one_path_found:
  "find_one i docs = Some u \<Longrightarrow> f u = Some u' \<Longrightarrow>
   update_one_path i f docs = Some (update_one i (\<lambda>_. u') docs)"
  by (induction docs) (auto simp: find_one_def split: if_splits)

lemma update_one_path_raises:
  "find_one i docs = Some u \<Longrightarrow> f u = None \<Longrightarrow> update_one_path i f docs = None"
  by (induction docs) (auto simp: find_one_def split: if_splits)

lemma find_one_uid: "find_one i docs = Some u \<Longrightarrow> uid u = i"
  by (induction docs) (auto simp: find_one_def split: if_splits)

lemma find_one_update_const:
  assumes "find_one i docs = Some u" "uid u' = i"
  shows "find_one j (update_one i (\<lambda>_. u') docs) = (if j = i then Some u' else find_one j docs)"
  using assms by (induction docs) (auto simp: find_one_def split: if_splits)

section \<open>Badges (database.py)\<close>

text \<open>
  The catalogue \<open>ALL_BADGES\<close> in its insertion order. Each entry keeps the two keys the
  evaluation reads, \<open>type\<close> and \<open>req\<close>; \<open>name\<close>, \<open>icon\<close> and \<open>desc\<close> are display texts.
\<close>

record badge =
  b_type :: string
  b_req :: int

definition ALL_BADGES :: "(string \<times> badge) list" where
  "ALL_BADGES =
    [(''level_2'',     \<lparr>b_type = ''level'', b_req = 2\<rparr>),
     (''level_5'',     \<lparr>b_type = ''level'', b_req = 5\<rparr>),
     (''level_10'',    \<lparr>b_type = ''level'', b_req = 10\<rparr>),
     (''level_15'',    \<lparr>b_type = ''level'', b_req = 15\<rparr>),
     (''xp_25'',       \<lparr>b_type = ''total_xp'', b_req = 25\<rparr>),
     (''xp_100'',      \<lparr>b_type = ''total_xp'', b_req = 100\<rparr>),
     (''xp_500'',      \<lparr>b_type = ''total_xp'', b_req = 500\<rparr>),
     (''xp_1000'',     \<lparr>b_type = ''total_xp'', b_req = 1000\<rparr>),
     (''conv_5'',      \<lparr>b_type = ''conversation_count'', b_req = 5\<rparr>),
     (''conv_25'',     \<lparr>b_type = ''conversation_count'', b_req = 25\<rparr>),
     (''roleplay_5'',  \<lparr>b_type = ''roleplay_count'', b_req = 5\<rparr>),
     (''roleplay_20'', \<lparr>b_type = ''roleplay_count'', b_req = 20\<rparr>),
     (''repeat_10'',   \<lparr>b_type = ''repeat_count'', b_req = 10\<rparr>),
     (''repeat_50'',   \<lparr>b_type = ''repeat_count'', b_req = 50\<rparr>),
     (''repeat_200'',  \<lparr>b_type = ''repeat_count'', b_req = 200\<rparr>),
     (''spell_5'',     \<lparr>b_type = ''spelling_count'', b_req = 5\<rparr>),
     (''spell_25'',    \<lparr>b_type = ''spelling_count'', b_req = 25\<rparr>),
     (''spell_100'',   \<lparr>b_type = ''spelling_count'', b_req = 100\<rparr>),
     (''vocab_10'',    \<lparr>b_type = ''vocabulary_count'', b_req = 10\<rparr>),
     (''vocab_50'',    \<lparr>b_type = ''vocabulary_count'', b_req = 50\<rparr>),
     (''perfect_5'',   \<lparr>b_type = ''high_pronunciation_count'', b_req = 5\<rparr>),
     (''perfect_25'',  \<lparr>b_type = ''high_pronunciation_count'', b_req = 25\<rparr>)]"

definition init_user_achievements :: achievements_doc where
  "init_user_achievements =
     \<lparr>badges_earned = BList [],
      stats = [(''daily_login_streak'', JInt 0), (''max_login_streak'', JInt 0),
               (''last_login'', JOther), (''conversation_count'', JInt 0),
               (''roleplay_count'', JInt 0), (''repeat_count'', JInt 0),
               (''spelling_count'', JInt 0), (''vocabulary_count'', JInt 0),
               (''high_pronunciation_count'', JInt 0), (''challenge_streak'', JInt 0)]\<rparr>"

text \<open>
  The value a badge is compared with:
  \<^verbatim>\<open>
  if vt == 'level': current = user.get('level', 1)
  elif vt == 'total_xp': current = user.get('total_xp', 0)
  else: current = achievements.get(vt, 0) if isinstance(achievements, dict) else 0
  \<close>
  (\<open>achievements\<close> is a mapping at this point: a value of another shape was replaced.)
\<close>

definition badge_current :: "user \<Rightarrow> achievements_doc \<Rightarrow> string \<Rightarrow> jval" where
  "badge_current usr ach vt =
     (if vt = ''level'' then JInt (case level usr of None \<Rightarrow> 1 | Some l \<Rightarrow> l)
      else if vt = ''total_xp'' then JInt (case total_xp usr of None \<Rightarrow> 0 | Some x \<Rightarrow> x)
      else (case map_of (stats ach) vt of None \<Rightarrow> JInt 0 | Some v \<Rightarrow> v))"

text \<open>\<open>isinstance(current, (int, float)) and current >= req\<close>\<close>

definition reaches :: "jval \<Rightarrow> int \<Rightarrow> bool" where
  "reaches cur req = (case cur of JInt n \<Rightarrow> n \<ge> req | JOther \<Rightarrow> False)"

definition earned_list :: "achievements_doc \<Rightarrow> string list" where
  "earned_list ach = (case badges_earned ach of BList l \<Rightarrow> l | _ \<Rightarrow> [])"

definition new_badges_for :: "user \<Rightarrow> achievements_doc \<Rightarrow> string list \<Rightarrow> string list" where
  "new_badges_for usr ach earned =
     map fst (filter (\<lambda>(bid, b). bid \<notin> set earned \<and> reaches (badge_current usr ach (b_type b)) (b_req b))
                ALL_BADGES)"

text \<open>
  \<^verbatim>\<open>
  def check_and_award_badges(user_id):
      if users_collection is None: return []
      try:
          user = users_collection.find_one({'_id': user_id})
          if not user: return []
          achievements = user.get('achievements', init_user_achievements())
          if not isinstance(achievements, dict):
              achievements = init_user_achievements()
              users_collection.update_one({'_id': user_id}, {'$set': {'achievements': achievements}})
          earned = achievements.get('badges_earned', [])
          if not isinstance(earned, list): earned = []
          new_badges = []
          for bid, badge in ALL_BADGES.items():
              if bid in earned: continue
              ...
              if isinstance(current, (int, float)) and current >= req: new_badges.append(bid)
          if new_badges:
              earned.extend(new_badges)
              users_collection.update_one({'_id': user_id}, {'$set': {'achievements.badges_earned': earned}})
          return new_badges
      except Exception as e:
          print(f"Badge check error: {e}"); return []
  \<close>
  The function returns the new badges and the store after its writes.
\<close>

definition check_and_award_badges :: "string \<Rightarrow> state \<Rightarrow> string list \<times> state" where
  "check_and_award_badges user_id s =
     (case users_collection s of
        None \<Rightarrow> ([], s)
      | Some docs \<Rightarrow>
         (case find_one user_id docs of
            None \<Rightarrow> ([], s)
          | Some usr \<Rightarrow>
             (let ach = (case achievements usr of AchDict d \<Rightarrow> d | _ \<Rightarrow> init_user_achievements);
                  docs1 = (case achievements usr of
                             AchOther \<Rightarrow> update_one user_id
                                          (\<lambda>u. u\<lparr>achievements := AchDict init_user_achievements\<rparr>) docs
                           | _ \<Rightarrow> docs);
                  earned = earned_list ach;
                  new_badges = new_badges_for usr ach earned
              in if new_badges \<noteq> [] then
                   (case update_one_path user_id (set_badges_earned (earned @ new_badges)) docs1 of
                      None \<Rightarrow> ([], s\<lparr>users_collection := Some docs1\<rparr>)
                    | Some docs2 \<Rightarrow> (new_badges, s\<lparr>users_collection := Some docs2\<rparr>))
                 else (new_badges, s\<lparr>users_collection := Some docs1\<rparr>))))"



definition earned_badges :: "string \<Rightarrow> state \<Rightarrow> string list" where
  "earned_badges user_id s =
     (case users_collection s of
        None \<Rightarrow> []
      | Some docs \<Rightarrow>
         (case find_one user_id docs of
            None \<Rightarrow> []
          | Some usr \<Rightarrow> (case achievements usr of AchDict d \<Rightarrow> earned_list d | _ \<Rightarrow> [])))"

definition post_achievements :: "achievements_field \<Rightarrow> string list \<Rightarrow> achievements_field" where
  "post_achievements a new =
     (case a of
        AchDict d \<Rightarrow> if new = [] then AchDict d
                     else AchDict (d\<lparr>badges_earned := BList (earned_list d @ new)\<rparr>)
      | AchAbsent \<Rightarrow> if new = [] then AchAbsent
                     else AchDict \<lparr>badges_earned = BList new, stats = []\<rparr>
      | AchOther \<Rightarrow> if new = [] then AchDict init_user_achievements
                    else AchDict (init_user_achievements\<lparr>badges_earned := BList new\<rparr>))"

definition read_achievements :: "achievements_field \<Rightarrow> achievements_doc" where
  "read_achievements a = (case a of AchDict d \<Rightarrow> d | _ \<Rightarrow> init_user_achievements)"

lemma update_one_same:
  "find_one i docs = Some u \<Longrightarrow> update_one i (\<lambda>_. u) docs = docs"
  by (induction docs) (auto simp: find_one_def split: if_splits)

lemma update_one_const_twice:
  "update_one i (\<lambda>_. v) (update_one i f docs) = update_one i (\<lambda>_. v) docs"
  if "\<And>u. uid (f u) = uid u"
  using that by (induction docs) auto

lemma update_one_as_const:
  "find_one i docs = Some u \<Longrightarrow> update_one i f docs = update_one i (\<lambda>_. f u) docs"
  by (induction docs) (auto simp: find_one_def split: if_splits)

lemma earned_list_init [simp]: "earned_list init_user_achievements = []"
  by (simp add: earned_list_def init_user_achievements_def)

lemma check_and_award_badges_found:
  assumes "users_collection s = Some docs" "find_one user_id docs = Some usr"
  shows "check_and_award_badges user_id s =
     (new_badges_for usr (read_achievements (achievements usr))
         (earned_list (read_achievements (achievements usr))),
      s\<lparr>users_collection := Some (update_one user_id
          (\<lambda>_. usr\<lparr>achievements := post_achievements (achievements usr)
               (new_badges_for usr (read_achievements (achievements usr))
                   (earned_list (read_achievements (achievements usr))))\<rparr>) docs)\<rparr>)"
proof -
  have id: "uid usr = user_id" using assms(2) by (rule find_one_uid)
  show ?thesis
  proof (cases "achievements usr")
    case AchAbsent
    then show ?thesis
      using assms id
      by (simp add: check_and_award_badges_def read_achievements_def post_achievements_def
          update_one_path_found [where u = usr] set_badges_earned_def update_one_same Let_def)
  next
    case (AchDict d)
    then show ?thesis
      using assms id
      by (simp add: check_and_award_badges_def read_achievements_def post_achievements_def
          update_one_path_found [where u = usr] set_badges_earned_def update_one_same Let_def)
  next
    case AchOther
    let ?u1 = "usr\<lparr>achievements := AchDict init_user_achievements\<rparr>"
    have f1: "find_one user_id (update_one user_id (\<lambda>u. u\<lparr>achievements := AchDict init_user_achievements\<rparr>) docs)
              = Some ?u1"
      using assms(2) by (simp add: find_one_update_one)
    have u1: "update_one user_id (\<lambda>u. u\<lparr>achievements := AchDict init_user_achievements\<rparr>) docs =
              update_one user_id (\<lambda>_. ?u1) docs"
      using assms(2) by (rule update_one_as_const)
    show ?thesis
      using assms id AchOther f1
      by (simp add: check_and_award_badges_def read_achievements_def post_achievements_def
          update_one_path_found [where u = ?u1] set_badges_earned_def Let_def
          update_one_const_twice u1 [symmetric])
  qed
qed


lemma badge_types_not_last_login:
  "(bid, b) \<in> set ALL_BADGES \<Longrightarrow> b_type b \<noteq> ''last_login''"
  by (auto simp: ALL_BADGES_def)

lemma new_badges_twice:
  assumes "\<And>vt. vt \<noteq> ''last_login'' \<Longrightarrow> badge_current usr' ach' vt = badge_current usr ach vt"
  shows "new_badges_for usr' ach' (earned @ new_badges_for usr ach earned) = []"
proof -
  have "\<not> (bid \<notin> set (earned @ new_badges_for usr ach earned) \<and>
            reaches (badge_current usr' ach' (b_type b)) (b_req b))"
    if mem: "(bid, b) \<in> set ALL_BADGES" for bid b
  proof
    assume h: "bid \<notin> set (earned @ new_badges_for usr ach earned) \<and>
               reaches (badge_current usr' ach' (b_type b)) (b_req b)"
    from mem have "b_type b \<noteq> ''last_login''" by (rule badge_types_not_last_login)
    with assms h have "reaches (badge_current usr ach (b_type b)) (b_req b)" by simp
    with h mem have "bid \<in> set (new_badges_for usr ach earned)"
      by (force simp: new_badges_for_def)
    with h show False by simp
  qed
  then show ?thesis
    by (auto simp: new_badges_for_def filter_empty_conv)
qed

lemma new_badges_fresh: "set (new_badges_for usr ach earned) \<inter> set earned = {}"
  by (auto simp: new_badges_for_def)

lemma distinct_badge_ids: "distinct (map fst ALL_BADGES)"
  by (simp add: ALL_BADGES_def)

lemma new_badges_distinct: "distinct (new_badges_for usr ach earned)"
  unfolding new_badges_for_def using distinct_badge_ids
  by (simp add: distinct_map_filter)

lemma badge_current_post:
  assumes "vt \<noteq> ''last_login''"
  shows "badge_current (usr\<lparr>achievements := a'\<rparr>) (read_achievements (post_achievements a new)) vt =
         badge_current usr (read_achievements a) vt"
  using assms
  by (cases a) (auto simp: badge_current_def read_achievements_def post_achievements_def
      init_user_achievements_def)

lemma earned_list_post:
  "earned_list (read_achievements (post_achievements a new)) =
   earned_list (read_achievements a) @ new"
  by (cases a) (auto simp: read_achievements_def post_achievements_def earned_list_def
      init_user_achievements_def)

lemma post_achievements_nil:
  "post_achievements (post_achievements a new) [] = post_achievements a new"
  by (cases a) (auto simp: post_achievements_def)

lemma earned_badges_post:
  "(case post_achievements a new of AchDict d \<Rightarrow> earned_list d | _ \<Rightarrow> []) =
   (case a of AchDict d \<Rightarrow> earned_list d | _ \<Rightarrow> []) @ new"
  by (cases a) (auto simp: post_achievements_def earned_list_def init_user_achievements_def)

section \<open>Badge idempotence\<close>

text \<open>
  Claim C8. Badge evaluation is idempotent: whatever the state, a second
  \<open>check_and_award_badges\<close> right after a first one returns the empty list and writes
  nothing; the earned list after the first call is the earned list before it followed by
  the new badges, none of which was earned before and none of which is listed twice, so no
  id is lost and no id is added again.
\<close>

theorem badge_evaluation_idempotent:
  assumes "check_and_award_badges user_id s = (new1, s1)"
  shows "check_and_award_badges user_id s1 = ([], s1) \<and>
         earned_badges user_id s1 = earned_badges user_id s @ new1 \<and>
         set new1 \<inter> set (earned_badges user_id s) = {} \<and> distinct new1"
proof (cases "users_collection s")
  case None
  with assms show ?thesis
    by (auto simp: check_and_award_badges_def earned_badges_def)
next
  case (Some docs)
  show ?thesis
  proof (cases "find_one user_id docs")
    case None
    with Some assms show ?thesis
      by (auto simp: check_and_award_badges_def earned_badges_def)
  next
    case (Some usr)
    define a where "a = achievements usr"
    define new where "new = new_badges_for usr (read_achievements a) (earned_list (read_achievements a))"
    define usr' where "usr' = usr\<lparr>achievements := post_achievements a new\<rparr>"
    define docs' where "docs' = update_one user_id (\<lambda>_. usr') docs"
    have id: "uid usr = user_id" using Some by (rule find_one_uid)
    from check_and_award_badges_found [OF \<open>users_collection s = Some docs\<close> Some] assms
    have new1: "new1 = new" and s1: "s1 = s\<lparr>users_collection := Some docs'\<rparr>"
      by (simp_all add: a_def new_def usr'_def docs'_def)
    have uc1: "users_collection s1 = Some docs'" by (simp add: s1)
    have f1: "find_one user_id docs' = Some usr'"
      unfolding docs'_def using Some id by (simp add: find_one_update_const usr'_def)
    have ach': "achievements usr' = post_achievements a new" by (simp add: usr'_def)
    have new2: "new_badges_for usr' (read_achievements (achievements usr'))
                  (earned_list (read_achievements (achievements usr'))) = []"
    proof -
      have "new_badges_for usr' (read_achievements (post_achievements a new))
              (earned_list (read_achievements a) @ new) = []"
        unfolding usr'_def new_def by (rule new_badges_twice) (simp add: badge_current_post)
      then show ?thesis by (simp add: ach' earned_list_post)
    qed
    have again: "check_and_award_badges user_id s1 = ([], s1)"
      unfolding check_and_award_badges_found [OF uc1 f1] new2
      using f1 by (simp add: ach' post_achievements_nil s1 usr'_def update_one_same)
    have earned: "earned_badges user_id s1 = earned_badges user_id s @ new1"
      using uc1 f1 Some \<open>users_collection s = Some docs\<close>
      by (simp add: earned_badges_def ach' earned_badges_post new1 a_def)
    have "earned_badges user_id s = (case a of AchDict d \<Rightarrow> earned_list d | _ \<Rightarrow> [])"
      using Some \<open>users_collection s = Some docs\<close> by (simp add: earned_badges_def a_def)
    also have "set \<dots> \<subseteq> set (earned_list (read_achievements a))"
      by (cases a) (auto simp: read_achievements_def)
    finally have fresh: "set new1 \<inter> set (earned_badges user_id s) = {}"
      using new_badges_fresh [of usr "read_achievements a" "earned_list (read_achievements a)"]
      unfolding new1 new_def by blast
    have "distinct new1" unfolding new1 new_def by (rule new_badges_distinct)
    with again earned fresh show ?thesis by blast
  qed
qed

text \<open>A student with 30 XP at level 2 and no badge yet, in an otherwise empty store.\<close>

definition demo_user :: user where
  "demo_user = \<lparr>uid = ''1234'', username = Some ''asha'', name = Some ''Asha'',
     user_class = Some ''5'', division = Some ''A'', user_type = Some ''student'',
     total_xp = Some 30, level = Some 2, achievements = AchDict init_user_achievements,
     weekly_xp = WAbsent,
     daily_challenges = \<lparr>week = None, challenge1 = None, challenge2 = None, challenge3 = None,
        completed_today = None, streak = None\<rparr>,
     security_question = None, security_answer = None, last_active = None\<rparr>"

definition demo_state :: state where
  "demo_state = \<lparr>users_collection = Some [demo_user], conversations_collection = Some Map.empty,
     conversation_contexts = Map.empty\<rparr>"

theorem badge_evaluation_idempotent_witness:
  "fst (check_and_award_badges ''1234'' demo_state) = [''level_2'', ''xp_25''] \<and>
   check_and_award_badges ''1234'' (snd (check_and_award_badges ''1234'' demo_state)) =
     ([], snd (check_and_award_badges ''1234'' demo_state)) \<and>
   earned_badges ''1234'' (snd (check_and_award_badges ''1234'' demo_state)) =
     [''level_2'', ''xp_25'']"
proof -
  have first: "fst (check_and_award_badges ''1234'' demo_state) = [''level_2'', ''xp_25'']"
    by code_simp
  have before: "earned_badges ''1234'' demo_state = []"
    by code_simp
  have "check_and_award_badges ''1234'' demo_state =
        (fst (check_and_award_badges ''1234'' demo_state),
         snd (check_and_award_badges ''1234'' demo_state))"
    by simp
  from badge_evaluation_idempotent [OF this] first before show ?thesis by simp
qed




section \<open>Weekly challenges (database.py)\<close>

text \<open>
  The current ISO week key (\<open>get_week_key()\<close>, read from the clock) is the parameter
  \<open>current_week\<close>.
  \<^verbatim>\<open>
  def get_daily_challenges(user_id):
      if users_collection is None: return None
      try:
          user = users_collection.find_one({'_id': user_id})
          if not user: return None
          current_week = get_week_key()
          challenges = user.get('daily_challenges', {})
          if challenges.get('week') != current_week:
              streak = challenges.get('streak', 0)
              all_done = challenges.get('completed_today', 0) == 3
              new_streak = streak + 1 if all_done else 0
              challenges = { 'week': current_week, 'challenge1': {...}, 'challenge2': {...},
                             'challenge3': {...}, 'completed_today': 0, 'streak': new_streak }
              if new_streak >= 7:
                  users_collection.update_one({'_id': user_id},
                      {'$set': {'achievements.challenge_streak': new_streak}})
                  check_and_award_badges(user_id)
              users_collection.update_one({'_id': user_id}, {'$set': {'daily_challenges': challenges}})
          return challenges
      except Exception as e:
          print(f"Weekly challenges error: {e}"); return None
  \<close>
\<close>

definition fresh_challenges :: "string \<Rightarrow> int \<Rightarrow> challenges" where
  "fresh_challenges current_week new_streak =
     \<lparr>week = Some current_week,
      challenge1 = Some \<lparr>c_type = ''practice'', c_target = 5, c_current = 0, c_completed = False, c_xp = 5\<rparr>,
      challenge2 = Some \<lparr>c_type = ''learning'', c_target = 10, c_current = 0, c_completed = False, c_xp = 5\<rparr>,
      challenge3 = Some \<lparr>c_type = ''mastery'', c_target = 3, c_current = 0, c_completed = False, c_xp = 5\<rparr>,
      completed_today = Some 0,
      streak = Some new_streak\<rparr>"

definition get_or :: "'a option \<Rightarrow> 'a \<Rightarrow> 'a" where
  "get_or v d = (case v of None \<Rightarrow> d | Some x \<Rightarrow> x)"

definition get_daily_challenges :: "string \<Rightarrow> string \<Rightarrow> state \<Rightarrow> challenges option \<times> state" where
  "get_daily_challenges current_week user_id s =
     (case users_collection s of
        None \<Rightarrow> (None, s)
      | Some docs \<Rightarrow>
         (case find_one user_id docs of
            None \<Rightarrow> (None, s)
          | Some usr \<Rightarrow>
             (let chs = daily_challenges usr in
              if week chs \<noteq> Some current_week then
                (let streak0 = get_or (streak chs) 0;
                     all_done = (get_or (completed_today chs) 0 = 3);
                     new_streak = (if all_done then streak0 + 1 else 0);
                     chs' = fresh_challenges current_week new_streak
                 in if new_streak \<ge> 7 then
                      (case update_one_path user_id (set_stat ''challenge_streak'' (JInt new_streak)) docs of
                         None \<Rightarrow> (None, s)
                       | Some docs1 \<Rightarrow>
                          (let s2 = snd (check_and_award_badges user_id (s\<lparr>users_collection := Some docs1\<rparr>))
                           in (Some chs',
                               s2\<lparr>users_collection :=
                                    map_option (update_one user_id (\<lambda>u. u\<lparr>daily_challenges := chs'\<rparr>))
                                      (users_collection s2)\<rparr>)))
                    else (Some chs',
                          s\<lparr>users_collection :=
                               Some (update_one user_id (\<lambda>u. u\<lparr>daily_challenges := chs'\<rparr>) docs)\<rparr>))
              else (Some chs, s))))"

text \<open>
  \<^verbatim>\<open>
  def update_challenge_progress(user_id, challenge_type, increment=1):
      if users_collection is None: return 0
      try:
          challenges = get_daily_challenges(user_id)
          if not challenges: return 0
          xp_earned = 0
          type_map = {'practice': 'challenge1', 'learning': 'challenge2', 'mastery': 'challenge3'}
          key = type_map.get(challenge_type)
          if key and not challenges[key]['completed']:
              challenges[key]['current'] = min(challenges[key]['target'], challenges[key]['current'] + increment)
              if challenges[key]['current'] >= challenges[key]['target']:
                  challenges[key]['completed'] = True
                  challenges['completed_today'] = challenges.get('completed_today', 0) + 1
                  xp_earned += challenges[key]['xp']
          if challenges.get('completed_today', 0) == 3:
              xp_earned += 10
          users_collection.update_one({'_id': user_id}, {'$set': {'daily_challenges': challenges}})
          if xp_earned > 0:
              cur_user = users_collection.find_one({'_id': user_id})
              if cur_user:
                  new_xp = cur_user.get('total_xp', 0) + xp_earned
                  new_level = calculate_level_from_xp(new_xp)
                  users_collection.update_one({'_id': user_id}, {'$set': {'total_xp': new_xp, 'level': new_level}})
                  check_and_award_badges(user_id)
          return xp_earned
      except Exception as e:
          print(f"Challenge update error: {e}"); return 0
  \<close>
  \<open>advance_slot\<close> is the block guarded by \<open>key and not challenges[key]['completed']\<close>: it
  returns the changed mapping and the XP accrued there; \<open>None\<close> is the \<open>KeyError\<close> of a
  mapping without that slot, which the handler turns into the result 0.
\<close>

definition type_map :: "(string \<times> string) list" where
  "type_map = [(''practice'', ''challenge1''), (''learning'', ''challenge2''), (''mastery'', ''challenge3'')]"

definition get_slot :: "string \<Rightarrow> challenges \<Rightarrow> challenge option" where
  "get_slot k chs =
     (if k = ''challenge1'' then challenge1 chs
      else if k = ''challenge2'' then challenge2 chs
      else if k = ''challenge3'' then challenge3 chs
      else None)"

definition set_slot :: "string \<Rightarrow> challenge \<Rightarrow> challenges \<Rightarrow> challenges" where
  "set_slot k c chs =
     (if k = ''challenge1'' then chs\<lparr>challenge1 := Some c\<rparr>
      else if k = ''challenge2'' then chs\<lparr>challenge2 := Some c\<rparr>
      else if k = ''challenge3'' then chs\<lparr>challenge3 := Some c\<rparr>
      else chs)"

definition advance_slot :: "string option \<Rightarrow> int \<Rightarrow> challenges \<Rightarrow> (challenges \<times> int) option" where
  "advance_slot key increment chs =
     (case key of
        None \<Rightarrow> Some (chs, 0)
      | Some k \<Rightarrow>
         (case get_slot k chs of
            None \<Rightarrow> None
          | Some c \<Rightarrow>
             if \<not> c_completed c then
               (let c1 = c\<lparr>c_current := min (c_target c) (c_current c + increment)\<rparr> in
                if c_current c1 \<ge> c_target c1 then
                  Some (set_slot k (c1\<lparr>c_completed := True\<rparr>) chs
                          \<lparr>completed_today := Some (get_or (completed_today chs) 0 + 1)\<rparr>,
                        c_xp c1)
                else Some (set_slot k c1 chs, 0))
             else Some (chs, 0)))"

definition update_challenge_progress ::
    "string \<Rightarrow> string \<Rightarrow> string \<Rightarrow> int \<Rightarrow> state \<Rightarrow> int \<times> state" where
  "update_challenge_progress current_week user_id challenge_type increment s =
     (case users_collection s of
        None \<Rightarrow> (0, s)
      | Some _ \<Rightarrow>
         (case get_daily_challenges current_week user_id s of
            (None, s1) \<Rightarrow> (0, s1)
          | (Some chs, s1) \<Rightarrow>
             (case advance_slot (map_of type_map challenge_type) increment chs of
                None \<Rightarrow> (0, s1)
              | Some (chs1, xp1) \<Rightarrow>
                 (let xp_earned = (if get_or (completed_today chs1) 0 = 3 then xp1 + 10 else xp1);
                      docs2 = map_option (update_one user_id (\<lambda>u. u\<lparr>daily_challenges := chs1\<rparr>))
                                (users_collection s1);
                      s2 = s1\<lparr>users_collection := docs2\<rparr>
                  in if xp_earned > 0 then
                       (case Option.bind docs2 (find_one user_id) of
                          None \<Rightarrow> (xp_earned, s2)
                        | Some cur_user \<Rightarrow>
                           (let new_xp = get_or (total_xp cur_user) 0 + xp_earned;
                                new_level = calculate_level_from_xp new_xp;
                                s3 = s2\<lparr>users_collection :=
                                        map_option (update_one user_id
                                           (\<lambda>u. u\<lparr>total_xp := Some new_xp, level := Some new_level\<rparr>)) docs2\<rparr>
                            in (xp_earned, snd (check_and_award_badges user_id s3))))
                     else (xp_earned, s2)))))"

text \<open>A week in which the student of \<open>demo_state\<close> has completed all three challenges.\<close>

definition done_challenges :: "string \<Rightarrow> challenges" where
  "done_challenges wk =
     \<lparr>week = Some wk,
      challenge1 = Some \<lparr>c_type = ''practice'', c_target = 5, c_current = 5, c_completed = True, c_xp = 5\<rparr>,
      challenge2 = Some \<lparr>c_type = ''learning'', c_target = 10, c_current = 10, c_completed = True, c_xp = 5\<rparr>,
      challenge3 = Some \<lparr>c_type = ''mastery'', c_target = 3, c_current = 3, c_completed = True, c_xp = 5\<rparr>,
      completed_today = Some 3,
      streak = Some 2\<rparr>"

definition done_state :: "string \<Rightarrow> state" where
  "done_state wk = demo_state\<lparr>users_collection := Some [demo_user\<lparr>daily_challenges := done_challenges wk\<rparr>]\<rparr>"


section \<open>Weekly rollover\<close>

text \<open>
  \<open>counter_consistent\<close>: the counter \<open>completed_today\<close> is the number of challenges whose
  \<open>completed\<close> flag is set. The fresh set satisfies it and \<open>advance_slot\<close> keeps it
  (\<open>fresh_consistent\<close>, \<open>advance_slot_consistent\<close> below).
\<close>

definition slot_completed :: "challenge option \<Rightarrow> bool" where
  "slot_completed c = (case c of None \<Rightarrow> False | Some x \<Rightarrow> c_completed x)"

definition count_completed :: "challenges \<Rightarrow> int" where
  "count_completed chs =
     (if slot_completed (challenge1 chs) then 1 else 0) +
     (if slot_completed (challenge2 chs) then 1 else 0) +
     (if slot_completed (challenge3 chs) then 1 else 0)"

definition all_three_completed :: "challenges \<Rightarrow> bool" where
  "all_three_completed chs =
     (slot_completed (challenge1 chs) \<and> slot_completed (challenge2 chs) \<and> slot_completed (challenge3 chs))"

definition counter_consistent :: "challenges \<Rightarrow> bool" where
  "counter_consistent chs = (get_or (completed_today chs) 0 = count_completed chs)"

definition stored_challenges :: "string \<Rightarrow> state \<Rightarrow> challenges option" where
  "stored_challenges user_id s =
     map_option daily_challenges (Option.bind (users_collection s) (find_one user_id))"

lemma consistent_all_done:
  "counter_consistent chs \<Longrightarrow> (get_or (completed_today chs) 0 = 3) = all_three_completed chs"
  by (auto simp: counter_consistent_def count_completed_def all_three_completed_def)

lemma stored_challenges_badges:
  "stored_challenges j (snd (check_and_award_badges i s)) = stored_challenges j s"
proof (cases "users_collection s")
  case None
  then show ?thesis by (simp add: check_and_award_badges_def)
next
  case (Some docs)
  show ?thesis
  proof (cases "find_one i docs")
    case None
    with Some show ?thesis by (simp add: check_and_award_badges_def)
  next
    case (Some usr)
    have "uid usr = i" using Some by (rule find_one_uid)
    then show ?thesis
      unfolding check_and_award_badges_found [OF \<open>users_collection s = Some docs\<close> Some]
      using Some \<open>users_collection s = Some docs\<close>
      by (simp add: stored_challenges_def find_one_update_const)
  qed
qed

lemma users_available_badges:
  "users_collection s \<noteq> None \<Longrightarrow> users_collection (snd (check_and_award_badges i s)) \<noteq> None"
  by (auto simp: check_and_award_badges_def Let_def split: option.splits)

lemma stored_challenges_set:
  assumes "users_collection s = Some docs" "find_one i docs = Some u"
  shows "stored_challenges i (s\<lparr>users_collection :=
            map_option (update_one i (\<lambda>u. u\<lparr>daily_challenges := c\<rparr>)) (users_collection s)\<rparr>) = Some c"
  using assms by (simp add: stored_challenges_def find_one_update_one)

text \<open>
  Claim C4. When the stored week key differs from the current week, fetching the challenges
  returns and stores a fresh set for the current week: the three challenges \<open>practice\<close>
  (target 5), \<open>learning\<close> (target 10) and \<open>mastery\<close> (target 3), each with progress 0, not
  completed and worth 5 XP, the counter \<open>completed_today\<close> at 0, and a streak that is the
  prior streak plus one if all three challenges of the stored set were completed, and 0
  otherwise. The stored set is one whose counter agrees with its flags. Where the new
  streak reaches 7 the function writes \<open>achievements.challenge_streak\<close>, which needs the
  \<open>achievements\<close> field of the user to be absent or a mapping (\<open>rollover_refused\<close> below
  is the other case).
\<close>

theorem weekly_rollover_streak:
  assumes "users_collection s = Some docs" and "find_one user_id docs = Some usr"
    and "week (daily_challenges usr) \<noteq> Some current_week"
    and "counter_consistent (daily_challenges usr)"
    and "achievements usr = AchOther \<Longrightarrow>
           (if all_three_completed (daily_challenges usr)
            then get_or (streak (daily_challenges usr)) 0 + 1 else 0) < 7"
  shows "fst (get_daily_challenges current_week user_id s) =
           Some \<lparr>week = Some current_week,
                  challenge1 = Some \<lparr>c_type = ''practice'', c_target = 5, c_current = 0,
                                      c_completed = False, c_xp = 5\<rparr>,
                  challenge2 = Some \<lparr>c_type = ''learning'', c_target = 10, c_current = 0,
                                      c_completed = False, c_xp = 5\<rparr>,
                  challenge3 = Some \<lparr>c_type = ''mastery'', c_target = 3, c_current = 0,
                                      c_completed = False, c_xp = 5\<rparr>,
                  completed_today = Some 0,
                  streak = Some (if all_three_completed (daily_challenges usr)
                                 then get_or (streak (daily_challenges usr)) 0 + 1 else 0)\<rparr> \<and>
         map_option streak (fst (get_daily_challenges current_week user_id s)) =
           Some (Some (if all_three_completed (daily_challenges usr)
                       then get_or (streak (daily_challenges usr)) 0 + 1 else 0)) \<and>
         map_option streak (stored_challenges user_id (snd (get_daily_challenges current_week user_id s))) =
           Some (Some (if all_three_completed (daily_challenges usr)
                       then get_or (streak (daily_challenges usr)) 0 + 1 else 0)) \<and>
         stored_challenges user_id (snd (get_daily_challenges current_week user_id s)) =
           fst (get_daily_challenges current_week user_id s)"
proof -
  define ns where "ns = (if all_three_completed (daily_challenges usr)
                         then get_or (streak (daily_challenges usr)) 0 + 1 else 0)"
  have ns: "(if get_or (completed_today (daily_challenges usr)) 0 = 3
             then get_or (streak (daily_challenges usr)) 0 + 1 else 0) = ns"
    using consistent_all_done [OF assms(4)] by (simp add: ns_def)
  have res: "fst (get_daily_challenges current_week user_id s) = Some (fresh_challenges current_week ns) \<and>
             stored_challenges user_id (snd (get_daily_challenges current_week user_id s)) =
               Some (fresh_challenges current_week ns)"
  proof (cases "ns \<ge> 7")
    case False
    then have g: "get_daily_challenges current_week user_id s =
        (Some (fresh_challenges current_week ns),
         s\<lparr>users_collection := Some (update_one user_id
              (\<lambda>u. u\<lparr>daily_challenges := fresh_challenges current_week ns\<rparr>) docs)\<rparr>)"
      using assms(1-3) ns by (simp add: get_daily_challenges_def Let_def)
    show ?thesis
      unfolding g
      using assms(2) by (simp add: stored_challenges_def find_one_update_one)
  next
    case True
    then have "achievements usr \<noteq> AchOther"
      using assms(5) by (auto simp: ns_def)
    then obtain u1 where u1: "set_stat ''challenge_streak'' (JInt ns) usr = Some u1"
      by (cases "achievements usr") (auto simp: set_stat_def)
    define docs1 where "docs1 = update_one user_id (\<lambda>_. u1) docs"
    define s2 where "s2 = snd (check_and_award_badges user_id (s\<lparr>users_collection := Some docs1\<rparr>))"
    have up: "update_one_path user_id (set_stat ''challenge_streak'' (JInt ns)) docs = Some docs1"
      unfolding docs1_def using assms(2) u1 by (rule update_one_path_found)
    have g: "get_daily_challenges current_week user_id s =
        (Some (fresh_challenges current_week ns),
         s2\<lparr>users_collection := map_option (update_one user_id
              (\<lambda>u. u\<lparr>daily_challenges := fresh_challenges current_week ns\<rparr>)) (users_collection s2)\<rparr>)"
      using assms(1-3) ns True up by (simp add: get_daily_challenges_def Let_def s2_def)
    have id1: "uid u1 = user_id"
      using u1 find_one_uid [OF assms(2)]
      by (cases "achievements usr") (auto simp: set_stat_def)
    have "stored_challenges user_id s2 \<noteq> None"
      unfolding s2_def stored_challenges_badges
      using assms(2) id1 by (simp add: stored_challenges_def docs1_def find_one_update_const)
    then obtain docs2 u2 where "users_collection s2 = Some docs2" "find_one user_id docs2 = Some u2"
      by (auto simp: stored_challenges_def Option.bind_eq_Some_conv split: option.splits)
    from stored_challenges_set [OF this]
    show ?thesis
      unfolding g by simp
  qed
  have lit: "fresh_challenges current_week ns =
           \<lparr>week = Some current_week,
             challenge1 = Some \<lparr>c_type = ''practice'', c_target = 5, c_current = 0,
                                 c_completed = False, c_xp = 5\<rparr>,
             challenge2 = Some \<lparr>c_type = ''learning'', c_target = 10, c_current = 0,
                                 c_completed = False, c_xp = 5\<rparr>,
             challenge3 = Some \<lparr>c_type = ''mastery'', c_target = 3, c_current = 0,
                                 c_completed = False, c_xp = 5\<rparr>,
             completed_today = Some 0,
             streak = Some ns\<rparr>"
    by (simp add: fresh_challenges_def)
  have str: "streak (fresh_challenges current_week ns) = Some ns"
    by (simp add: fresh_challenges_def)
  from res lit str show ?thesis
    unfolding ns_def [symmetric] by simp
qed

theorem weekly_rollover_streak_witness:
  "fst (get_daily_challenges ''2026-W46'' ''1234'' (done_state ''2026-W45'')) =
     Some \<lparr>week = Some ''2026-W46'',
            challenge1 = Some \<lparr>c_type = ''practice'', c_target = 5, c_current = 0,
                                c_completed = False, c_xp = 5\<rparr>,
            challenge2 = Some \<lparr>c_type = ''learning'', c_target = 10, c_current = 0,
                                c_completed = False, c_xp = 5\<rparr>,
            challenge3 = Some \<lparr>c_type = ''mastery'', c_target = 3, c_current = 0,
                                c_completed = False, c_xp = 5\<rparr>,
            completed_today = Some 0,
            streak = Some 3\<rparr> \<and>
   map_option streak (stored_challenges ''1234''
       (snd (get_daily_challenges ''2026-W46'' ''1234'' (done_state ''2026-W45'')))) = Some (Some 3) \<and>
   map_option streak (fst (get_daily_challenges ''2026-W46'' ''1234'' demo_state)) = Some (Some 0) \<and>
   map_option streak (stored_challenges ''1234''
       (snd (get_daily_challenges ''2026-W46'' ''1234'' demo_state))) = Some (Some 0)"
proof -
  have a: "users_collection (done_state ''2026-W45'') =
             Some [demo_user\<lparr>daily_challenges := done_challenges ''2026-W45''\<rparr>]"
    by (simp add: done_state_def demo_state_def)
  have b: "find_one ''1234'' [demo_user\<lparr>daily_challenges := done_challenges ''2026-W45''\<rparr>] =
             Some (demo_user\<lparr>daily_challenges := done_challenges ''2026-W45''\<rparr>)"
    by (simp add: find_one_def demo_user_def)
  have c: "week (daily_challenges (demo_user\<lparr>daily_challenges := done_challenges ''2026-W45''\<rparr>))
             \<noteq> Some ''2026-W46''"
    by (simp add: done_challenges_def)
  have d: "counter_consistent (daily_challenges (demo_user\<lparr>daily_challenges := done_challenges ''2026-W45''\<rparr>))"
    by (simp add: counter_consistent_def count_completed_def slot_completed_def done_challenges_def get_or_def)
  have e: "achievements (demo_user\<lparr>daily_challenges := done_challenges ''2026-W45''\<rparr>) = AchOther \<Longrightarrow>
           (if all_three_completed (daily_challenges (demo_user\<lparr>daily_challenges := done_challenges ''2026-W45''\<rparr>))
            then get_or (streak (daily_challenges (demo_user\<lparr>daily_challenges := done_challenges ''2026-W45''\<rparr>))) 0 + 1
            else 0) < 7"
    by (simp add: demo_user_def)
  have f: "all_three_completed (done_challenges ''2026-W45'')"
    by (simp add: all_three_completed_def slot_completed_def done_challenges_def)
  have g: "get_or (streak (done_challenges ''2026-W45'')) 0 = 2"
    by (simp add: done_challenges_def get_or_def)
  from weekly_rollover_streak [OF a b c d e] f g
  have done3: "fst (get_daily_challenges ''2026-W46'' ''1234'' (done_state ''2026-W45'')) =
     Some \<lparr>week = Some ''2026-W46'',
            challenge1 = Some \<lparr>c_type = ''practice'', c_target = 5, c_current = 0,
                                c_completed = False, c_xp = 5\<rparr>,
            challenge2 = Some \<lparr>c_type = ''learning'', c_target = 10, c_current = 0,
                                c_completed = False, c_xp = 5\<rparr>,
            challenge3 = Some \<lparr>c_type = ''mastery'', c_target = 3, c_current = 0,
                                c_completed = False, c_xp = 5\<rparr>,
            completed_today = Some 0,
            streak = Some 3\<rparr>"
    and stored3: "map_option streak (stored_challenges ''1234''
       (snd (get_daily_challenges ''2026-W46'' ''1234'' (done_state ''2026-W45'')))) = Some (Some 3)"
    by simp_all
  have a0: "users_collection demo_state = Some [demo_user]"
    by (simp add: demo_state_def)
  have b0: "find_one ''1234'' [demo_user] = Some demo_user"
    by (simp add: find_one_def demo_user_def)
  have c0: "week (daily_challenges demo_user) \<noteq> Some ''2026-W46''"
    by (simp add: demo_user_def)
  have d0: "counter_consistent (daily_challenges demo_user)"
    by (simp add: counter_consistent_def count_completed_def slot_completed_def demo_user_def get_or_def)
  have e0: "achievements demo_user = AchOther \<Longrightarrow>
           (if all_three_completed (daily_challenges demo_user)
            then get_or (streak (daily_challenges demo_user)) 0 + 1 else 0) < 7"
    by (simp add: demo_user_def)
  have f0: "\<not> all_three_completed (daily_challenges demo_user)"
    by (simp add: all_three_completed_def slot_completed_def demo_user_def)
  from weekly_rollover_streak [OF a0 b0 c0 d0 e0] f0
  have none0: "map_option streak (fst (get_daily_challenges ''2026-W46'' ''1234'' demo_state)) = Some (Some 0)"
    and stored0: "map_option streak (stored_challenges ''1234''
       (snd (get_daily_challenges ''2026-W46'' ''1234'' demo_state))) = Some (Some 0)"
    by simp_all
  from done3 stored3 none0 stored0 show ?thesis by blast
qed

text \<open>
  The other case: the \<open>achievements\<close> field is neither absent nor a mapping and the new streak
  reaches 7. The write of \<open>achievements.challenge_streak\<close> raises, the handler returns
  \<open>None\<close> and nothing is stored.
\<close>

lemma rollover_refused:
  assumes "users_collection s = Some docs" and "find_one user_id docs = Some usr"
    and "week (daily_challenges usr) \<noteq> Some current_week"
    and "achievements usr = AchOther"
    and "get_or (completed_today (daily_challenges usr)) 0 = 3"
    and "get_or (streak (daily_challenges usr)) 0 + 1 \<ge> 7"
  shows "get_daily_challenges current_week user_id s = (None, s)"
proof -
  have "set_stat ''challenge_streak'' v usr = None" for v
    using assms(4) by (simp add: set_stat_def)
  with assms(2) have "update_one_path user_id (set_stat ''challenge_streak'' v) docs = None" for v
    by (rule update_one_path_raises)
  with assms show ?thesis
    by (simp add: get_daily_challenges_def Let_def)
qed

lemma fresh_consistent: "counter_consistent (fresh_challenges wk n)"
  by (simp add: counter_consistent_def count_completed_def slot_completed_def
      fresh_challenges_def get_or_def)

lemma advance_slot_consistent:
  assumes "advance_slot key increment chs = Some (chs1, xp1)" "counter_consistent chs"
  shows "counter_consistent chs1"
proof (cases key)
  case None
  with assms show ?thesis by (simp add: advance_slot_def)
next
  case (Some k)
  with assms(1) obtain c where c: "get_slot k chs = Some c"
    by (auto simp: advance_slot_def split: option.splits)
  then have k: "k = ''challenge1'' \<or> k = ''challenge2'' \<or> k = ''challenge3''"
    by (auto simp: get_slot_def split: if_splits)
  show ?thesis
  proof (cases "c_completed c")
    case True
    with assms Some c show ?thesis by (simp add: advance_slot_def)
  next
    case False
    with assms Some c k show ?thesis
      by (auto simp: advance_slot_def Let_def get_slot_def set_slot_def counter_consistent_def
          count_completed_def slot_completed_def get_or_def split: if_splits)
  qed
qed

section \<open>XP returned by a challenge update\<close>

text \<open>
  Claim C1 says that \<open>update_challenge_progress\<close> returns 0 when the slot was already
  completed or the challenge type is not recognised. Once all three challenges of the week
  are completed, the test \<open>completed_today == 3\<close> succeeds on every later call: a call for
  the completed \<open>practice\<close> slot, and a call with an unknown type, both return 10 and raise
  \<open>total_xp\<close> from 30 to 40.
\<close>

theorem challenge_bonus_repeats:
  "fst (update_challenge_progress ''2026-W45'' ''1234'' ''practice'' 1 (done_state ''2026-W45'')) = 10 \<and>
   fst (update_challenge_progress ''2026-W45'' ''1234'' ''nonsense'' 1 (done_state ''2026-W45'')) = 10 \<and>
   map_option (map total_xp) (users_collection (done_state ''2026-W45'')) = Some [Some 30] \<and>
   map_option (map total_xp) (users_collection (snd
      (update_challenge_progress ''2026-W45'' ''1234'' ''practice'' 1 (done_state ''2026-W45'')))) =
     Some [Some 40]"
  by code_simp




section \<open>Strings\<close>

text \<open>
  Python strings are modelled as \<^typ>\<open>string\<close>, a list of 8-bit characters, and the string
  methods on the ASCII range: \<open>strip()\<close> removes the white space of \<open>str.isspace\<close> at both
  ends, \<open>lower()\<close> and \<open>upper()\<close> map the 26 letters, \<open>split('\n')\<close> cuts at every newline
  (the empty text gives one empty line) and \<open>'\n'.join\<close> puts the lines together.
\<close>

definition is_space :: "char \<Rightarrow> bool" where
  "is_space c = (c \<in> set [CHR 0x09, CHR 0x0A, CHR 0x0B, CHR 0x0C, CHR 0x0D,
                            CHR 0x1C, CHR 0x1D, CHR 0x1E, CHR 0x1F, CHR 0x20])"

definition strip :: "string \<Rightarrow> string" where
  "strip t = rev (dropWhile is_space (rev (dropWhile is_space t)))"

definition lower_char :: "char \<Rightarrow> char" where
  "lower_char c = (let n = (of_char c :: nat) in if 65 \<le> n \<and> n \<le> 90 then char_of (n + 32) else c)"

definition upper_char :: "char \<Rightarrow> char" where
  "upper_char c = (let n = (of_char c :: nat) in if 97 \<le> n \<and> n \<le> 122 then char_of (n - 32) else c)"

definition lower :: "string \<Rightarrow> string" where
  "lower t = map lower_char t"

definition upper :: "string \<Rightarrow> string" where
  "upper t = map upper_char t"

fun split_nl :: "string \<Rightarrow> string list" where
  "split_nl [] = [[]]"
| "split_nl (c # cs) =
     (if c = CHR 0x0A then [] # split_nl cs
      else (case split_nl cs of [] \<Rightarrow> [[c]] | l # ls \<Rightarrow> (c # l) # ls))"

fun join_nl :: "string list \<Rightarrow> string" where
  "join_nl [] = []"
| "join_nl [l] = l"
| "join_nl (l # m # ls) = l @ CHR 0x0A # join_nl (m # ls)"


lemma split_nl_nonempty: "split_nl t \<noteq> []"
  by (induction t) (auto split: list.splits)

lemma length_split_nl: "length (split_nl t) = Suc (length (filter (\<lambda>c. c = CHR 0x0A) t))"
  by (induction t) (auto split: list.splits simp: split_nl_nonempty)

lemma split_nl_lines: "l \<in> set (split_nl t) \<Longrightarrow> CHR 0x0A \<notin> set l"
  by (induction t arbitrary: l) (auto split: if_splits list.splits)

lemma split_nl_single: "CHR 0x0A \<notin> set l \<Longrightarrow> split_nl l = [l]"
  by (induction l) auto

lemma split_nl_append: "CHR 0x0A \<notin> set l \<Longrightarrow> split_nl (l @ CHR 0x0A # r) = l # split_nl r"
  by (induction l) auto

lemma split_join:
  "ls \<noteq> [] \<Longrightarrow> (\<And>l. l \<in> set ls \<Longrightarrow> CHR 0x0A \<notin> set l) \<Longrightarrow> split_nl (join_nl ls) = ls"
proof (induction ls rule: join_nl.induct)
  case 1
  then show ?case by simp
next
  case (2 l)
  then show ?case by (simp add: split_nl_single)
next
  case (3 l m ls)
  have "split_nl (join_nl (m # ls)) = m # ls"
    using "3.prems"(2) by (intro "3.IH") simp_all
  then show ?case
    using "3.prems"(2) by (simp add: split_nl_append)
qed

lemma newlines_dropWhile:
  "length (filter P (dropWhile Q t)) \<le> length (filter P t)"
proof -
  have "length (filter P t) = length (filter P (takeWhile Q t @ dropWhile Q t))" by simp
  also have "\<dots> = length (filter P (takeWhile Q t)) + length (filter P (dropWhile Q t))"
    by (simp only: filter_append length_append)
  finally show ?thesis by simp
qed

lemma newlines_strip:
  "length (filter P (strip t)) \<le> length (filter P t)"
proof -
  have "length (filter P (strip t)) = length (filter P (dropWhile is_space (rev (dropWhile is_space t))))"
    by (simp add: strip_def rev_filter [symmetric])
  also have "\<dots> \<le> length (filter P (rev (dropWhile is_space t)))"
    by (rule newlines_dropWhile)
  also have "\<dots> = length (filter P (dropWhile is_space t))"
    by (simp add: rev_filter [symmetric])
  also have "\<dots> \<le> length (filter P t)"
    by (rule newlines_dropWhile)
  finally show ?thesis .
qed

lemma lines_strip_le: "length (split_nl (strip t)) \<le> length (split_nl t)"
  by (simp add: length_split_nl newlines_strip)


section \<open>Conversation contexts (database.py, app.py)\<close>

text \<open>
  The conversation collection maps a user id to a document; \<open>$set\<close> of the path
  \<open>conversations.<mode>\<close> with \<open>upsert=True\<close> writes key \<open><mode>\<close> of the nested mapping
  and creates the document when it is missing. That reading of the path holds for a mode
  that is a plain field name (\<open>plain_key\<close>: not empty, no dot, no dollar sign), as
  \<open>conversation\<close> and \<open>roleplay_<persona>\<close> are. The clock is the parameter \<open>now\<close>.
  \<^verbatim>\<open>
  def save_conversation(user_id, mode, conversation_text):
      if conversations_collection is None: return False
      try:
          msgs = conversation_text.strip().split('\n') if conversation_text else []
          if mode == 'conversation':
              limit = 100
          else:
              limit = 50   # all roleplay_* modes
          if len(msgs) > limit:
              conversation_text = '\n'.join(msgs[-limit:])
          conversations_collection.update_one({'user_id': user_id},
              {'$set': {f'conversations.{mode}': conversation_text, 'updated_at': ...}}, upsert=True)
          return True
      except Exception as e:
          print(f"Save conv error: {e}"); return False

  def get_conversation(user_id, mode):
      if conversations_collection is None: return ''
      try:
          doc = conversations_collection.find_one({'user_id': user_id})
          if doc and 'conversations' in doc:
              return doc['conversations'].get(mode, '')
          return ''
      except Exception: return ''
  \<close>
  \<open>line_limit\<close> is the variable \<open>limit\<close> and \<open>trimmed\<close> the text that is written.
\<close>

definition plain_key :: "string \<Rightarrow> bool" where
  "plain_key k = (k \<noteq> [] \<and> CHR ''.'' \<notin> set k \<and> CHR ''$'' \<notin> set k)"

definition line_limit :: "string \<Rightarrow> nat" where
  "line_limit mode = (if mode = ''conversation'' then 100 else 50)"

definition trimmed :: "string \<Rightarrow> string \<Rightarrow> string" where
  "trimmed mode conversation_text =
     (let msgs = (if conversation_text \<noteq> [] then split_nl (strip conversation_text) else []);
          limit = line_limit mode
      in if length msgs > limit then join_nl (drop (length msgs - limit) msgs)
         else conversation_text)"

definition save_conversation :: "string \<Rightarrow> string \<Rightarrow> string \<Rightarrow> string \<Rightarrow> state \<Rightarrow> bool \<times> state" where
  "save_conversation now user_id mode conversation_text s =
     (case conversations_collection s of
        None \<Rightarrow> (False, s)
      | Some coll \<Rightarrow>
         (let old = (case coll user_id of None \<Rightarrow> Map.empty | Some doc \<Rightarrow> conversations doc);
              doc' = \<lparr>conversations = old(mode \<mapsto> trimmed mode conversation_text), updated_at = now\<rparr>
          in (True, s\<lparr>conversations_collection := Some (coll(user_id \<mapsto> doc'))\<rparr>)))"

definition get_conversation :: "string \<Rightarrow> string \<Rightarrow> state \<Rightarrow> string" where
  "get_conversation user_id mode s =
     (case conversations_collection s of
        None \<Rightarrow> []
      | Some coll \<Rightarrow>
         (case coll user_id of
            None \<Rightarrow> []
          | Some doc \<Rightarrow> (case conversations doc mode of None \<Rightarrow> [] | Some t \<Rightarrow> t)))"

text \<open>
  app.py reads the store first and falls back to the in-memory mapping; it writes both.
  \<^verbatim>\<open>
  def get_user_context(user_id, mode):
      context = get_conversation(user_id, mode)
      if context:
          return context
      if user_id not in conversation_contexts:
          conversation_contexts[user_id] = {'conversation': '', 'roleplay': ''}
      return conversation_contexts[user_id].get(mode, '')

  def update_user_context(user_id, mode, context):
      save_conversation(user_id, mode, context)
      if user_id not in conversation_contexts:
          conversation_contexts[user_id] = {}
      conversation_contexts[user_id][mode] = context
  \<close>
\<close>

definition get_user_context :: "string \<Rightarrow> string \<Rightarrow> state \<Rightarrow> string \<times> state" where
  "get_user_context user_id mode s =
     (let context = get_conversation user_id mode s in
      if context \<noteq> [] then (context, s)
      else
        (let per_user = (case conversation_contexts s user_id of
                           None \<Rightarrow> [''conversation'' \<mapsto> [], ''roleplay'' \<mapsto> []]
                         | Some m \<Rightarrow> m)
         in (case per_user mode of None \<Rightarrow> [] | Some t \<Rightarrow> t,
             s\<lparr>conversation_contexts := (conversation_contexts s)(user_id \<mapsto> per_user)\<rparr>)))"

definition update_user_context :: "string \<Rightarrow> string \<Rightarrow> string \<Rightarrow> string \<Rightarrow> state \<Rightarrow> state" where
  "update_user_context now user_id mode context s =
     (let s1 = snd (save_conversation now user_id mode context s);
          per_user = (case conversation_contexts s1 user_id of None \<Rightarrow> Map.empty | Some m \<Rightarrow> m)
      in s1\<lparr>conversation_contexts := (conversation_contexts s1)(user_id \<mapsto> per_user(mode \<mapsto> context))\<rparr>)"

text \<open>
  The two coaches, with the text returned by the external dialogue generator as the
  parameter \<open>generated\<close> (the prompt they build is not part of the state):
  \<^verbatim>\<open>
  context = get_user_context(user_id, 'conversation')
  ...
  reply = response.choices[0].message.content.strip()
  new_context = context + f"\nChild: {child_text}\nAssistant: {reply}"
  update_user_context(user_id, 'conversation', new_context)
  return reply
  \<close>
  and in \<open>roleplay_coach\<close>
  \<^verbatim>\<open>
  context_key = f'roleplay_{roleplay_type}' if roleplay_type else 'roleplay'
  context = get_user_context(user_id, context_key)
  ...
  new_context = context + f"\nStudent: {child_text}\nAssistant: {reply}"
  update_user_context(user_id, context_key, new_context)
  \<close>
\<close>

definition english_coach :: "string \<Rightarrow> string \<Rightarrow> string \<Rightarrow> string \<Rightarrow> state \<Rightarrow> string \<times> state" where
  "english_coach now generated child_text user_id s =
     (let (context, s1) = get_user_context user_id ''conversation'' s;
          reply = strip generated;
          new_context = context @ CHR 0x0A # ''Child: '' @ child_text @ CHR 0x0A # ''Assistant: '' @ reply
      in (reply, update_user_context now user_id ''conversation'' new_context s1))"

definition roleplay_coach :: "string \<Rightarrow> string \<Rightarrow> string \<Rightarrow> string \<Rightarrow> string \<Rightarrow> state \<Rightarrow> string \<times> state" where
  "roleplay_coach now generated child_text roleplay_type user_id s =
     (let context_key = (if roleplay_type \<noteq> [] then ''roleplay_'' @ roleplay_type else ''roleplay'');
          (context, s1) = get_user_context user_id context_key s;
          reply = strip generated;
          new_context = context @ CHR 0x0A # ''Student: '' @ child_text @ CHR 0x0A # ''Assistant: '' @ reply
      in (reply, update_user_context now user_id context_key new_context s1))"

lemma stored_after_save:
  "conversations_collection s \<noteq> None \<Longrightarrow>
   get_conversation user_id mode (snd (save_conversation now user_id mode text s)) = trimmed mode text"
  by (auto simp: save_conversation_def get_conversation_def Let_def)

lemma stored_after_update:
  "get_conversation u m (update_user_context now user_id mode text s) =
   get_conversation u m (snd (save_conversation now user_id mode text s))"
  by (simp add: update_user_context_def get_conversation_def Let_def)

lemma line_limit_pos: "0 < line_limit mode"
  by (simp add: line_limit_def)

section \<open>Context trimming\<close>

text \<open>
  Claim C5. After a save of a (user, mode) context in an available store, the stored
  transcript has at most 100 lines for mode \<open>conversation\<close> and at most 50 for any other
  mode, lines being counted as \<open>save_conversation\<close> counts them (the text is stripped and
  cut at the newlines). When the text that is saved has more lines than the limit, the
  stored transcript consists of exactly its last limit-many lines; otherwise it is the text
  itself. \<open>update_user_context\<close> stores the same transcript.
\<close>

theorem context_trimming:
  assumes "conversations_collection s \<noteq> None" and "plain_key mode"
  shows "length (split_nl (strip (get_conversation user_id mode (snd (save_conversation now user_id mode text s)))))
           \<le> line_limit mode \<and>
         line_limit ''conversation'' = 100 \<and> (mode \<noteq> ''conversation'' \<longrightarrow> line_limit mode = 50) \<and>
         (length (split_nl (strip text)) > line_limit mode \<longrightarrow>
            split_nl (get_conversation user_id mode (snd (save_conversation now user_id mode text s))) =
              drop (length (split_nl (strip text)) - line_limit mode) (split_nl (strip text)) \<and>
            length (split_nl (get_conversation user_id mode (snd (save_conversation now user_id mode text s)))) =
              line_limit mode) \<and>
         (length (split_nl (strip text)) \<le> line_limit mode \<longrightarrow>
            get_conversation user_id mode (snd (save_conversation now user_id mode text s)) = text) \<and>
         get_conversation user_id mode (update_user_context now user_id mode text s) =
           get_conversation user_id mode (snd (save_conversation now user_id mode text s))"
proof -
  define msgs where "msgs = split_nl (strip text)"
  define stored where "stored = get_conversation user_id mode (snd (save_conversation now user_id mode text s))"
  have st: "stored = trimmed mode text"
    unfolding stored_def using assms(1) by (rule stored_after_save)
  have same: "get_conversation user_id mode (update_user_context now user_id mode text s) = stored"
    unfolding stored_def by (rule stored_after_update)
  have empty: "text = [] \<Longrightarrow> length msgs \<le> line_limit mode"
    by (simp add: msgs_def strip_def line_limit_def)
  have long: "split_nl stored = drop (length msgs - line_limit mode) msgs \<and>
              length (split_nl stored) = line_limit mode"
    if gt: "length msgs > line_limit mode"
  proof -
    from gt empty have ne: "text \<noteq> []" by fastforce
    let ?kept = "drop (length msgs - line_limit mode) msgs"
    have tr: "stored = join_nl ?kept"
      using gt ne by (simp add: st trimmed_def msgs_def Let_def)
    have len: "length ?kept = line_limit mode" using gt by simp
    then have "?kept \<noteq> []" using line_limit_pos [of mode] by auto
    moreover have "\<And>l. l \<in> set ?kept \<Longrightarrow> CHR 0x0A \<notin> set l"
      using split_nl_lines [of _ "strip text"] by (auto simp: msgs_def dest: in_set_dropD)
    ultimately have "split_nl (join_nl ?kept) = ?kept" by (rule split_join)
    with tr len show ?thesis by simp
  qed
  have short: "stored = text" if "length msgs \<le> line_limit mode"
    using that by (simp add: st trimmed_def msgs_def Let_def)
  have bound: "length (split_nl (strip stored)) \<le> line_limit mode"
  proof (cases "length msgs > line_limit mode")
    case True
    have "length (split_nl (strip stored)) \<le> length (split_nl stored)" by (rule lines_strip_le)
    with long [OF True] show ?thesis by simp
  next
    case False
    with short have "stored = text" by simp
    with False show ?thesis by (simp add: msgs_def)
  qed
  have lim: "line_limit ''conversation'' = 100 \<and> (mode \<noteq> ''conversation'' \<longrightarrow> line_limit mode = 50)"
    by (simp add: line_limit_def)
  from bound same long short lim show ?thesis
    unfolding stored_def msgs_def by blast
qed

text \<open>A text of 52 lines: 51 lines \<open>a\<close> and a last line \<open>b\<close>.\<close>

definition long_text :: string where
  "long_text = concat (replicate 51 ''a\<newline>'') @ ''b''"

theorem context_trimming_witness:
  "length (split_nl (strip (get_conversation ''1234'' ''roleplay_teacher''
      (snd (save_conversation ''2026-11-04 10:00:00'' ''1234'' ''roleplay_teacher'' long_text demo_state)))))
     \<le> 50 \<and>
   split_nl (get_conversation ''1234'' ''roleplay_teacher''
      (snd (save_conversation ''2026-11-04 10:00:00'' ''1234'' ''roleplay_teacher'' long_text demo_state))) =
     replicate 49 ''a'' @ [''b'']"
proof -
  have a: "conversations_collection demo_state \<noteq> None" by (simp add: demo_state_def)
  have b: "plain_key ''roleplay_teacher''" by (simp add: plain_key_def)
  have c: "line_limit ''roleplay_teacher'' = 50" by (simp add: line_limit_def)
  have d: "length (split_nl (strip long_text)) = 52" by code_simp
  have e: "drop 2 (split_nl (strip long_text)) = replicate 49 ''a'' @ [''b'']" by code_simp
  from context_trimming [OF a b, of "''1234''" "''2026-11-04 10:00:00''" long_text] c d e
  show ?thesis by simp
qed

lemma get_conversation_save_other:
  "u \<noteq> user_id \<or> m \<noteq> mode \<Longrightarrow>
   get_conversation u m (snd (save_conversation now user_id mode text s)) = get_conversation u m s"
  by (auto simp: save_conversation_def get_conversation_def Let_def split: option.splits)

lemma get_conversation_read:
  "get_conversation u m (snd (get_user_context u' m' s)) = get_conversation u m s"
  by (simp add: get_user_context_def get_conversation_def Let_def)

lemma view_after_read:
  "fst (get_user_context u m (snd (get_user_context u' m' s))) = fst (get_user_context u m s)"
  by (auto simp: get_user_context_def get_conversation_def Let_def split: option.splits)

lemma view_after_update:
  assumes "u \<noteq> user_id \<or> m \<noteq> mode"
  shows "fst (get_user_context u m (update_user_context now user_id mode text s)) =
         fst (get_user_context u m s)"
proof -
  have g: "get_conversation u m (update_user_context now user_id mode text s) = get_conversation u m s"
    unfolding stored_after_update using assms by (rule get_conversation_save_other)
  have c: "conversation_contexts (snd (save_conversation now user_id mode text s)) = conversation_contexts s"
    by (simp add: save_conversation_def Let_def split: option.splits)
  have "(case (case conversation_contexts (update_user_context now user_id mode text s) u of
                 None \<Rightarrow> [''conversation'' \<mapsto> [], ''roleplay'' \<mapsto> []] | Some x \<Rightarrow> x) m of
           None \<Rightarrow> [] | Some t \<Rightarrow> t) =
        (case (case conversation_contexts s u of
                 None \<Rightarrow> [''conversation'' \<mapsto> [], ''roleplay'' \<mapsto> []] | Some x \<Rightarrow> x) m of
           None \<Rightarrow> [] | Some t \<Rightarrow> t)"
    using assms by (auto simp: update_user_context_def Let_def c split: option.splits)
  with g show ?thesis
    by (simp add: get_user_context_def Let_def)
qed

section \<open>Context isolation\<close>

text \<open>
  Claim C6. Saving a context for one mode, directly, through \<open>update_user_context\<close>, or by
  a turn of \<open>roleplay_coach\<close> or \<open>english_coach\<close>, leaves the stored transcript of every
  other mode of the same user as it was, and also what \<open>get_user_context\<close> returns for it.
\<close>

theorem context_isolation:
  assumes "mode' \<noteq> mode" and "plain_key mode" and "plain_key mode'"
  shows "get_conversation user_id mode' (snd (save_conversation now user_id mode text s)) =
           get_conversation user_id mode' s \<and>
         get_conversation user_id mode' (update_user_context now user_id mode text s) =
           get_conversation user_id mode' s \<and>
         fst (get_user_context user_id mode' (update_user_context now user_id mode text s)) =
           fst (get_user_context user_id mode' s) \<and>
         (mode = ''roleplay_'' @ roleplay_type \<and> roleplay_type \<noteq> [] \<longrightarrow>
            get_conversation user_id mode'
                (snd (roleplay_coach now generated child_text roleplay_type user_id s)) =
              get_conversation user_id mode' s \<and>
            fst (get_user_context user_id mode'
                (snd (roleplay_coach now generated child_text roleplay_type user_id s))) =
              fst (get_user_context user_id mode' s)) \<and>
         (mode = ''conversation'' \<longrightarrow>
            get_conversation user_id mode' (snd (english_coach now generated child_text user_id s)) =
              get_conversation user_id mode' s \<and>
            fst (get_user_context user_id mode' (snd (english_coach now generated child_text user_id s))) =
              fst (get_user_context user_id mode' s))"
proof -
  have other: "user_id \<noteq> user_id \<or> mode' \<noteq> mode" using assms(1) by simp
  have a: "get_conversation user_id mode' (snd (save_conversation now user_id mode text s)) =
           get_conversation user_id mode' s"
    using other by (rule get_conversation_save_other)
  have b: "get_conversation user_id mode' (update_user_context now user_id mode text s) =
           get_conversation user_id mode' s"
    unfolding stored_after_update by (rule a)
  have c: "fst (get_user_context user_id mode' (update_user_context now user_id mode text s)) =
           fst (get_user_context user_id mode' s)"
    using other by (rule view_after_update)
  have d: "get_conversation user_id mode'
                (snd (roleplay_coach now generated child_text roleplay_type user_id s)) =
              get_conversation user_id mode' s \<and>
            fst (get_user_context user_id mode'
                (snd (roleplay_coach now generated child_text roleplay_type user_id s))) =
              fst (get_user_context user_id mode' s)"
    if "mode = ''roleplay_'' @ roleplay_type" "roleplay_type \<noteq> []"
    using that other
    by (simp add: roleplay_coach_def Let_def split_beta stored_after_update
        get_conversation_save_other get_conversation_read view_after_update view_after_read)
  have e: "get_conversation user_id mode' (snd (english_coach now generated child_text user_id s)) =
              get_conversation user_id mode' s \<and>
            fst (get_user_context user_id mode' (snd (english_coach now generated child_text user_id s))) =
              fst (get_user_context user_id mode' s)"
    if "mode = ''conversation''"
    using that other
    by (simp add: english_coach_def Let_def split_beta stored_after_update
        get_conversation_save_other get_conversation_read view_after_update view_after_read)
  from a b c d e show ?thesis by blast
qed


text \<open>A store in which user 1234 has transcripts for \<open>roleplay_friend\<close> and \<open>conversation\<close>.\<close>

definition talk_state :: state where
  "talk_state = demo_state\<lparr>conversations_collection :=
      Some [''1234'' \<mapsto> \<lparr>conversations = [''roleplay_friend'' \<mapsto> ''Student: hi'',
                                              ''conversation'' \<mapsto> ''Child: hello''],
                             updated_at = ''2026-11-03 09:00:00''\<rparr>]\<rparr>"

theorem context_isolation_witness:
  "get_conversation ''1234'' ''roleplay_friend''
      (snd (roleplay_coach ''2026-11-04 10:00:00'' ''CORRECT: I like maths.'' ''i like maths''
              ''teacher'' ''1234'' talk_state)) = ''Student: hi'' \<and>
   get_conversation ''1234'' ''conversation''
      (snd (roleplay_coach ''2026-11-04 10:00:00'' ''CORRECT: I like maths.'' ''i like maths''
              ''teacher'' ''1234'' talk_state)) = ''Child: hello''"
proof -
  have k: "plain_key ''roleplay_teacher''" "plain_key ''roleplay_friend''" "plain_key ''conversation''"
    by (simp_all add: plain_key_def)
  have f: "get_conversation ''1234'' ''roleplay_friend'' talk_state = ''Student: hi''"
    by (simp add: get_conversation_def talk_state_def)
  have c: "get_conversation ''1234'' ''conversation'' talk_state = ''Child: hello''"
    by (simp add: get_conversation_def talk_state_def)
  have n1: "''roleplay_friend'' \<noteq> ''roleplay_teacher''" by simp
  have n2: "''conversation'' \<noteq> ''roleplay_teacher''" by simp
  from context_isolation [OF n1 k(1) k(2), of "''1234''" "''2026-11-04 10:00:00''" _ talk_state
      "''teacher''" "''CORRECT: I like maths.''" "''i like maths''"] f
  have a: "get_conversation ''1234'' ''roleplay_friend''
      (snd (roleplay_coach ''2026-11-04 10:00:00'' ''CORRECT: I like maths.'' ''i like maths''
              ''teacher'' ''1234'' talk_state)) = ''Student: hi''"
    by simp
  from context_isolation [OF n2 k(1) k(3), of "''1234''" "''2026-11-04 10:00:00''" _ talk_state
      "''teacher''" "''CORRECT: I like maths.''" "''i like maths''"] c
  have b: "get_conversation ''1234'' ''conversation''
      (snd (roleplay_coach ''2026-11-04 10:00:00'' ''CORRECT: I like maths.'' ''i like maths''
              ''teacher'' ''1234'' talk_state)) = ''Child: hello''"
    by simp
  from a b show ?thesis by simp
qed




section \<open>Weekly leaderboard (database.py)\<close>

text \<open>
  \<^verbatim>\<open>
  def get_weekly_leaderboard(selected_class, selected_division=""):
      if users_collection is None: return []
      try:
          week = get_week_key()
          all_docs = list(users_collection.find({}))
          selected_class_str = str(selected_class).strip()
          selected_div_str = str(selected_division).strip().upper()
          students = []
          for s in all_docs:
              student_class = str(s.get('class', '')).strip()
              student_div   = str(s.get('division', '')).strip().upper()
              user_type     = s.get('user_type', 'student')
              if user_type == 'teacher': continue
              if student_class.lower() != selected_class_str.lower(): continue
              if selected_div_str and student_div != selected_div_str: continue
              students.append(s)
          lb = []
          for s in students:
              weekly_xp_map = s.get('weekly_xp', {})
              weekly_xp = weekly_xp_map.get(week, 0) if isinstance(weekly_xp_map, dict) else 0
              lb.append({'user_id': str(s.get('_id', '')),
                         'name': s.get('name', s.get('username', 'Unknown')),
                         'xp': s.get('total_xp', 0), 'weekly_xp': weekly_xp,
                         'level': s.get('level', 1),
                         'badges': len(s.get('achievements', {}).get('badges_earned', [])),
                         'division': s.get('division', '')})
          lb.sort(key=lambda x: (x['weekly_xp'], x['xp']), reverse=True)
          for i, e in enumerate(lb): e['rank'] = i + 1
          return lb
      except Exception as e:
          print(f"Leaderboard error: {e}"); return []
  \<close>
  An entry is a record; its \<open>rank\<close> key is absent (\<open>None\<close>) until the last loop sets it. The
  class and the division are the texts \<open>str\<close> gives.
\<close>

record lb_entry =
  lb_user_id :: string
  lb_name :: string
  lb_xp :: int
  lb_weekly_xp :: int
  lb_level :: int
  lb_badges :: nat
  lb_division :: string
  lb_rank :: "int option"

definition in_selection :: "string \<Rightarrow> string \<Rightarrow> user \<Rightarrow> bool" where
  "in_selection selected_class selected_division u =
     (let selected_class_str = strip selected_class;
          selected_div_str = upper (strip selected_division);
          student_class = strip (get_or (user_class u) []);
          student_div = upper (strip (get_or (division u) []))
      in \<not> (get_or (user_type u) ''student'' = ''teacher'') \<and>
         \<not> (lower student_class \<noteq> lower selected_class_str) \<and>
         \<not> (selected_div_str \<noteq> [] \<and> student_div \<noteq> selected_div_str))"

text \<open>
  \<open>len(s.get('achievements', {}).get('badges_earned', []))\<close>: \<open>None\<close> is the exception
  raised for an \<open>achievements\<close> value without \<open>.get\<close> or a \<open>badges_earned\<close> value without
  a length; the handler then returns the empty leaderboard.
\<close>

definition badge_count :: "user \<Rightarrow> nat option" where
  "badge_count u =
     (case achievements u of
        AchAbsent \<Rightarrow> Some 0
      | AchOther \<Rightarrow> None
      | AchDict d \<Rightarrow>
         (case badges_earned d of BAbsent \<Rightarrow> Some 0 | BList l \<Rightarrow> Some (length l) | BOther \<Rightarrow> None))"

definition entry_of :: "string \<Rightarrow> user \<Rightarrow> lb_entry option" where
  "entry_of wk u =
     (case badge_count u of
        None \<Rightarrow> None
      | Some n \<Rightarrow>
         Some \<lparr>lb_user_id = uid u,
               lb_name = get_or (name u) (get_or (username u) ''Unknown''),
               lb_xp = get_or (total_xp u) 0,
               lb_weekly_xp = (case weekly_xp u of WDict m \<Rightarrow> get_or (map_of m wk) 0 | _ \<Rightarrow> 0),
               lb_level = get_or (level u) 1,
               lb_badges = n,
               lb_division = get_or (division u) [],
               lb_rank = None\<rparr>)"

definition lb_key :: "lb_entry \<Rightarrow> int \<times> int" where
  "lb_key x = (lb_weekly_xp x, lb_xp x)"

text \<open>
  \<open>list.sort(key=..., reverse=True)\<close> reverses the list, sorts it with the stable ascending
  sort and reverses the result, so that entries with equal keys keep their order; tuples
  are compared lexicographically.
\<close>

definition sort_reverse :: "('a \<Rightarrow> 'k::linorder) \<Rightarrow> 'a list \<Rightarrow> 'a list" where
  "sort_reverse f xs = rev (sort_key f (rev xs))"

definition assign_ranks :: "lb_entry list \<Rightarrow> lb_entry list" where
  "assign_ranks lb = map (\<lambda>(i, e). e\<lparr>lb_rank := Some (int i + 1)\<rparr>) (enumerate 0 lb)"

definition get_weekly_leaderboard :: "string \<Rightarrow> string \<Rightarrow> string \<Rightarrow> state \<Rightarrow> lb_entry list" where
  "get_weekly_leaderboard wk selected_class selected_division s =
     (case users_collection s of
        None \<Rightarrow> []
      | Some all_docs \<Rightarrow>
         (let students = filter (in_selection selected_class selected_division) all_docs in
          case those (map (entry_of wk) students) of
            None \<Rightarrow> []
          | Some lb \<Rightarrow> assign_ranks (sort_reverse lb_key lb)))"















section \<open>Leaderboard ordering\<close>






section \<open>User access and security question (database.py)\<close>

text \<open>
  \<^verbatim>\<open>
  def get_user_by_id(user_id):
      if users_collection is None: return None
      try: return users_collection.find_one({'_id': user_id})
      except Exception: return None

  def update_user(user_id, update_data):
      if users_collection is None: return False
      try:
          update_data['last_active'] = datetime.now().strftime("%Y-%m-%d %H:%M:%S")
          users_collection.update_one({'_id': user_id}, {'$set': update_data})
          return True
      except Exception as e: print(f"Update user error: {e}"); return False
  \<close>
  The mapping \<open>update_data\<close> is given by what \<open>$set\<close> of it does to a document.
\<close>

definition get_user_by_id :: "string \<Rightarrow> state \<Rightarrow> user option" where
  "get_user_by_id user_id s =
     (case users_collection s of None \<Rightarrow> None | Some docs \<Rightarrow> find_one user_id docs)"

definition update_user :: "string \<Rightarrow> string \<Rightarrow> (user \<Rightarrow> user) \<Rightarrow> state \<Rightarrow> bool \<times> state" where
  "update_user now user_id update_data s =
     (case users_collection s of
        None \<Rightarrow> (False, s)
      | Some docs \<Rightarrow>
         (True, s\<lparr>users_collection :=
                    Some (update_one user_id (\<lambda>u. (update_data u)\<lparr>last_active := Some now\<rparr>) docs)\<rparr>))"

text \<open>
  The password hashing of werkzeug is an external library: \<open>generate_password_hash\<close> and
  \<open>check_password_hash\<close> are parameters, the second returning \<open>None\<close> when it raises.
  \<^verbatim>\<open>
  def check_pw(stored, provided):
      try:
          return check_password_hash(stored, provided)
      except Exception:
          return stored == provided

  def set_security_question(user_id, question, answer_plain):
      if users_collection is None: return False
      try:
          users_collection.update_one({'_id': user_id}, {'$set': {
              'security_question': question,
              'security_answer': hash_password(answer_plain.strip().lower())}})
          return True
      except Exception as e: ...; return False

  def verify_security_answer(user_id, question, answer_plain):
      if users_collection is None: return False
      try:
          user = users_collection.find_one({'_id': user_id})
          if not user: return False
          if user.get('security_question') != question: return False
          stored_answer = user.get('security_answer')
          if not stored_answer: return False
          return check_pw(stored_answer, answer_plain.strip().lower())
      except Exception as e: ...; return False
  \<close>
\<close>

definition check_pw :: "(string \<Rightarrow> string \<Rightarrow> bool option) \<Rightarrow> string \<Rightarrow> string \<Rightarrow> bool" where
  "check_pw check_password_hash stored provided =
     (case check_password_hash stored provided of Some b \<Rightarrow> b | None \<Rightarrow> stored = provided)"

definition set_security_question ::
    "(string \<Rightarrow> string) \<Rightarrow> string \<Rightarrow> string \<Rightarrow> string \<Rightarrow> state \<Rightarrow> bool \<times> state" where
  "set_security_question generate_password_hash user_id question answer_plain s =
     (case users_collection s of
        None \<Rightarrow> (False, s)
      | Some docs \<Rightarrow>
         (True, s\<lparr>users_collection := Some (update_one user_id
                    (\<lambda>u. u\<lparr>security_question := Some question,
                           security_answer := Some (generate_password_hash (lower (strip answer_plain)))\<rparr>)
                    docs)\<rparr>))"

definition verify_security_answer ::
    "(string \<Rightarrow> string \<Rightarrow> bool option) \<Rightarrow> string \<Rightarrow> string \<Rightarrow> string \<Rightarrow> state \<Rightarrow> bool" where
  "verify_security_answer check_password_hash user_id question answer_plain s =
     (case users_collection s of
        None \<Rightarrow> False
      | Some docs \<Rightarrow>
         (case find_one user_id docs of
            None \<Rightarrow> False
          | Some usr \<Rightarrow>
             if security_question usr \<noteq> Some question then False
             else (case security_answer usr of
                     None \<Rightarrow> False
                   | Some stored_answer \<Rightarrow>
                      if stored_answer = [] then False
                      else check_pw check_password_hash stored_answer (lower (strip answer_plain)))))"

section \<open>Security answer verification\<close>

text \<open>
  Claim C10. For a user of the store whose answer was saved by \<open>set_security_question\<close>,
  \<open>verify_security_answer\<close> accepts every supplied answer that equals the original after
  stripping and lower-casing, given a hashing library whose check accepts the text a hash
  was made from and whose hashes are not empty. It rejects every other question, and in any
  state it rejects when the stored question differs from the supplied one or no answer is
  stored, whatever the answer.
\<close>

theorem security_answer_verification:
  assumes "\<And>p. check_password_hash (generate_password_hash p) p = Some True"
    and "\<And>p. generate_password_hash p \<noteq> []"
    and "get_user_by_id user_id s \<noteq> None"
  shows "(lower (strip supplied) = lower (strip answer) \<longrightarrow>
            verify_security_answer check_password_hash user_id question supplied
              (snd (set_security_question generate_password_hash user_id question answer s))) \<and>
         (other \<noteq> question \<longrightarrow>
            \<not> verify_security_answer check_password_hash user_id other supplied
              (snd (set_security_question generate_password_hash user_id question answer s))) \<and>
         ((case get_user_by_id user_id t of
             None \<Rightarrow> True
           | Some u \<Rightarrow> security_question u \<noteq> Some other \<or> security_answer u = None \<or>
                       security_answer u = Some []) \<longrightarrow>
            \<not> verify_security_answer check_password_hash user_id other supplied t)"
proof -
  from assms(3) obtain docs usr where d: "users_collection s = Some docs" "find_one user_id docs = Some usr"
    by (auto simp: get_user_by_id_def split: option.splits)
  define usr' where "usr' = usr\<lparr>security_question := Some question,
      security_answer := Some (generate_password_hash (lower (strip answer)))\<rparr>"
  define s' where "s' = snd (set_security_question generate_password_hash user_id question answer s)"
  have f: "get_user_by_id user_id s' = Some usr'"
    using d by (simp add: s'_def set_security_question_def get_user_by_id_def find_one_update_one usr'_def)
  have v: "verify_security_answer check_password_hash user_id q a s' =
           (q = question \<and> check_pw check_password_hash
               (generate_password_hash (lower (strip answer))) (lower (strip a)))" for q a
    using f assms(2)
    by (auto simp: verify_security_answer_def get_user_by_id_def usr'_def split: option.splits)
  have a: "verify_security_answer check_password_hash user_id question supplied s'"
    if "lower (strip supplied) = lower (strip answer)"
    using that assms(1) by (simp add: v check_pw_def)
  have b: "\<not> verify_security_answer check_password_hash user_id other supplied s'"
    if "other \<noteq> question"
    using that by (simp add: v)
  have c: "\<not> verify_security_answer check_password_hash user_id other supplied t"
    if "case get_user_by_id user_id t of
             None \<Rightarrow> True
           | Some u \<Rightarrow> security_question u \<noteq> Some other \<or> security_answer u = None \<or>
                       security_answer u = Some []"
    using that
    by (auto simp: verify_security_answer_def get_user_by_id_def split: option.splits)
  from a b c show ?thesis unfolding s'_def by blast
qed

text \<open>A stand-in for the hashing library: a tagged copy of the text.\<close>

definition demo_hash :: "string \<Rightarrow> string" where
  "demo_hash p = ''pbkdf2:'' @ p"

definition demo_check :: "string \<Rightarrow> string \<Rightarrow> bool option" where
  "demo_check h p = (if take 7 h = ''pbkdf2:'' then Some (drop 7 h = p) else None)"

theorem security_answer_verification_witness:
  "verify_security_answer demo_check ''1234'' ''What is your favourite colour?'' ''blue''
     (snd (set_security_question demo_hash ''1234'' ''What is your favourite colour?'' ''  Blue '' demo_state)) \<and>
   \<not> verify_security_answer demo_check ''1234'' ''What is your favourite food?'' ''blue''
     (snd (set_security_question demo_hash ''1234'' ''What is your favourite colour?'' ''  Blue '' demo_state)) \<and>
   \<not> verify_security_answer demo_check ''1234'' ''What is your favourite colour?'' ''blue'' demo_state"
proof -
  have a: "demo_check (demo_hash p) p = Some True" for p
    by (simp add: demo_check_def demo_hash_def)
  have b: "demo_hash p \<noteq> []" for p
    by (simp add: demo_hash_def)
  have c: "get_user_by_id ''1234'' demo_state \<noteq> None"
    by (simp add: get_user_by_id_def demo_state_def find_one_def demo_user_def)
  have d: "lower (strip ''blue'') = lower (strip ''  Blue '')"
    by code_simp
  have e: "''What is your favourite food?'' \<noteq> ''What is your favourite colour?''"
    by simp
  have f: "(case get_user_by_id ''1234'' demo_state of
             None \<Rightarrow> True
           | Some u \<Rightarrow> security_question u \<noteq> Some ''What is your favourite colour?'' \<or>
                       security_answer u = None \<or> security_answer u = Some [])"
    by (simp add: get_user_by_id_def demo_state_def find_one_def demo_user_def)
  from security_answer_verification [of demo_check demo_hash "''1234''" demo_state "''blue''" "''  Blue ''"
      "''What is your favourite colour?''" "''What is your favourite food?''" demo_state, OF a b c]
    d e
  have g: "verify_security_answer demo_check ''1234'' ''What is your favourite colour?'' ''blue''
     (snd (set_security_question demo_hash ''1234'' ''What is your favourite colour?'' ''  Blue '' demo_state)) \<and>
   \<not> verify_security_answer demo_check ''1234'' ''What is your favourite food?'' ''blue''
     (snd (set_security_question demo_hash ''1234'' ''What is your favourite colour?'' ''  Blue '' demo_state))"
    by blast
  from security_answer_verification [of demo_check demo_hash "''1234''" demo_state "''blue''" "''  Blue ''"
      "''What is your favourite colour?''" "''What is your favourite colour?''" demo_state, OF a b c]
    f
  have h: "\<not> verify_security_answer demo_check ''1234'' ''What is your favourite colour?'' ''blue'' demo_state"
    by blast
  from g h show ?thesis by blast
qed




section \<open>Store unavailable\<close>

text \<open>
  Claim C9. When the collection handle an operation uses is \<open>None\<close>, the operation returns
  its default and changes nothing: the empty list for \<open>get_weekly_leaderboard\<close> and
  \<open>check_and_award_badges\<close>, \<open>None\<close> for \<open>get_user_by_id\<close> and \<open>get_daily_challenges\<close>,
  \<open>False\<close> for \<open>update_user\<close>, \<open>set_security_question\<close>, \<open>verify_security_answer\<close> and
  \<open>save_conversation\<close>, the empty string for \<open>get_conversation\<close> and 0 for
  \<open>update_challenge_progress\<close>.
\<close>

theorem store_unavailable_defaults:
  "(users_collection s = None \<longrightarrow>
      get_weekly_leaderboard wk cls dv s = [] \<and>
      get_user_by_id user_id s = None \<and>
      update_user now user_id update_data s = (False, s) \<and>
      check_and_award_badges user_id s = ([], s) \<and>
      update_challenge_progress wk user_id challenge_type increment s = (0, s) \<and>
      get_daily_challenges wk user_id s = (None, s) \<and>
      set_security_question generate_password_hash user_id question answer s = (False, s) \<and>
      \<not> verify_security_answer check_password_hash user_id question answer s) \<and>
   (conversations_collection s = None \<longrightarrow>
      get_conversation user_id mode s = [] \<and>
      save_conversation now user_id mode text s = (False, s))"
  by (simp add: get_weekly_leaderboard_def get_user_by_id_def update_user_def
      check_and_award_badges_def update_challenge_progress_def get_daily_challenges_def
      set_security_question_def verify_security_answer_def get_conversation_def
      save_conversation_def)

text \<open>The state after a failed connection.\<close>

definition offline_state :: state where
  "offline_state = \<lparr>users_collection = None, conversations_collection = None,
     conversation_contexts = Map.empty\<rparr>"

theorem store_unavailable_defaults_witness:
  "get_weekly_leaderboard ''2026-W45'' ''5'' ''A'' offline_state = [] \<and>
   get_user_by_id ''1234'' offline_state = None \<and>
   update_user ''2026-11-04 10:00:00'' ''1234'' (\<lambda>u. u\<lparr>name := Some ''Asha''\<rparr>) offline_state =
     (False, offline_state) \<and>
   check_and_award_badges ''1234'' offline_state = ([], offline_state) \<and>
   update_challenge_progress ''2026-W45'' ''1234'' ''practice'' 1 offline_state = (0, offline_state) \<and>
   get_conversation ''1234'' ''conversation'' offline_state = []"
proof -
  have a: "users_collection offline_state = None" by (simp add: offline_state_def)
  have b: "conversations_collection offline_state = None" by (simp add: offline_state_def)
  from store_unavailable_defaults [of offline_state "''2026-W45''" "''5''" "''A''" "''1234''"
      "''2026-11-04 10:00:00''" "\<lambda>u. u\<lparr>name := Some ''Asha''\<rparr>" "''practice''" 1 _ _ _ _
      "''conversation''"] a b
  show ?thesis by blast
qed

section \<open>Star scoring (app.py)\<close>

text \<open>
  \<open>SequenceMatcher(None, a, b).ratio()\<close> of difflib is the parameter \<open>ratio\<close>. Its value is
  the fraction \<open>2M/T\<close> of matched characters, a rational number, and the thresholds are
  decimal fractions: the comparison is modelled on the rationals.
  \<^verbatim>\<open>
  score = SequenceMatcher(None, student.lower(), correct.lower()).ratio()
  if score >= 0.9:    stars = 3
  elif score >= 0.75: stars = 2
  elif score >= 0.6:  stars = 1
  else:               stars = 0
  \<close>
  and in \<open>check_spelling\<close>
  \<^verbatim>\<open>
  student = student_spelling.lower().strip()
  correct = correct_word.lower().strip()
  is_correct = (student == correct)
  if is_correct:
      stars = 3
  else:
      similarity = SequenceMatcher(None, student, correct).ratio()
      if similarity >= 0.8:   stars = 2
      elif similarity >= 0.5: stars = 1
      else:                   stars = 0
  \<close>
  Both functions are modelled by the stars they compute.
\<close>

definition repeat_stars :: "rat \<Rightarrow> int" where
  "repeat_stars score =
     (if score \<ge> 9 / 10 then 3
      else if score \<ge> 3 / 4 then 2
      else if score \<ge> 3 / 5 then 1
      else 0)"

definition check_repeat :: "(string \<Rightarrow> string \<Rightarrow> rat) \<Rightarrow> string \<Rightarrow> string \<Rightarrow> int" where
  "check_repeat ratio student correct = repeat_stars (ratio (lower student) (lower correct))"

definition check_spelling :: "(string \<Rightarrow> string \<Rightarrow> rat) \<Rightarrow> string \<Rightarrow> string \<Rightarrow> int" where
  "check_spelling ratio student_spelling correct_word =
     (let student = strip (lower student_spelling);
          correct = strip (lower correct_word);
          is_correct = (student = correct)
      in if is_correct then 3
         else (let similarity = ratio student correct
               in if similarity \<ge> 4 / 5 then 2
                  else if similarity \<ge> 1 / 2 then 1
                  else 0))"

text \<open>
  Claim C2. In repeat mode the stars follow the similarity ratio \<open>r\<close> of the lower-cased
  texts: 3 for \<open>r \<ge> 0.9\<close>, 2 for \<open>0.75 \<le> r < 0.9\<close>, 1 for \<open>0.6 \<le> r < 0.75\<close>, 0 below 0.6. In
  spelling mode an answer equal to the word after lower-casing and stripping gets 3 stars
  whatever the ratio function is.
\<close>

theorem star_bands:
  "(ratio (lower student) (lower correct) \<ge> 9 / 10 \<longrightarrow> check_repeat ratio student correct = 3) \<and>
   (3 / 4 \<le> ratio (lower student) (lower correct) \<and> ratio (lower student) (lower correct) < 9 / 10
      \<longrightarrow> check_repeat ratio student correct = 2) \<and>
   (3 / 5 \<le> ratio (lower student) (lower correct) \<and> ratio (lower student) (lower correct) < 3 / 4
      \<longrightarrow> check_repeat ratio student correct = 1) \<and>
   (ratio (lower student) (lower correct) < 3 / 5 \<longrightarrow> check_repeat ratio student correct = 0) \<and>
   (strip (lower student) = strip (lower correct) \<longrightarrow> check_spelling ratio student correct = 3)"
  by (simp add: check_repeat_def repeat_stars_def check_spelling_def)

theorem star_bands_witness:
  "check_repeat (\<lambda>a b. 4 / 5) ''the cat sat'' ''The cat sat on the mat.'' = 2 \<and>
   check_repeat (\<lambda>a b. if a = b then 1 else 0) ''THE CAT'' ''the cat'' = 3 \<and>
   check_spelling (\<lambda>a b. 0) '' Cat '' ''cat'' = 3"
proof -
  have a: "(3::rat) / 4 \<le> 4 / 5 \<and> (4::rat) / 5 < 9 / 10" by simp
  have b: "lower ''THE CAT'' = lower ''the cat''" by code_simp
  have c: "strip (lower '' Cat '') = strip (lower ''cat'')" by code_simp
  from star_bands [of "\<lambda>a b. 4 / 5" "''the cat sat''" "''The cat sat on the mat.''"] a
  have 1: "check_repeat (\<lambda>a b. 4 / 5) ''the cat sat'' ''The cat sat on the mat.'' = 2"
    by blast
  from star_bands [of "\<lambda>a b. if a = b then 1 else 0" "''THE CAT''" "''the cat''"] b
  have 2: "check_repeat (\<lambda>a b. if a = b then 1 else 0) ''THE CAT'' ''the cat'' = 3"
    by simp
  from star_bands [of "\<lambda>a b. 0" "'' Cat ''" "''cat''"] c
  have 3: "check_spelling (\<lambda>a b. 0) '' Cat '' ''cat'' = 3"
    by blast
  from 1 2 3 show ?thesis by blast
qed


end
